theory Spec2Isabelle
  imports Main "HOL-Library.AList"
begin

section \<open>JavaScript strings and truthiness\<close>

text \<open>
  The client is TypeScript. A JavaScript string is modelled as a \<open>string\<close>; the operations
  used by the source (\<open>startsWith\<close>, \<open>includes\<close>, \<open>replace\<close>, \<open>split\<close>, \<open>join\<close>) act on the
  sequence of characters only. A value that may be \<open>null\<close> or \<open>undefined\<close> is an \<open>option\<close>.
\<close>

text \<open>\<open>if (token)\<close>: null, undefined and the empty string are falsy.\<close>

definition truthy :: "string option \<Rightarrow> bool" where
  "truthy t = (case t of None \<Rightarrow> False | Some s \<Rightarrow> s \<noteq> [])"

text \<open>\<open>a || b\<close> on strings.\<close>

definition or_else :: "string option \<Rightarrow> string \<Rightarrow> string" where
  "or_else t d = (case t of None \<Rightarrow> d | Some s \<Rightarrow> if s = [] then d else s)"

text \<open>A value inside a template literal: \<open>`${undefined}`\<close> is the text \<open>undefined\<close>.\<close>

definition template :: "string option \<Rightarrow> string" where
  "template t = (case t of None \<Rightarrow> ''undefined'' | Some s \<Rightarrow> s)"

definition startsWith :: "string \<Rightarrow> string \<Rightarrow> bool" where
  "startsWith s p = (take (length p) s = p)"

fun str_includes :: "string \<Rightarrow> string \<Rightarrow> bool" where
  "str_includes [] sub = (sub = [])"
| "str_includes (c # cs) sub = (startsWith (c # cs) sub \<or> str_includes cs sub)"

text \<open>\<open>s.replace(/^pat/, rep)\<close> for a literal pattern.\<close>

definition replacePrefix :: "string \<Rightarrow> string \<Rightarrow> string \<Rightarrow> string" where
  "replacePrefix pat rep s = (if startsWith s pat then rep @ drop (length pat) s else s)"

text \<open>\<open>s.replace(/pat/g, rep)\<close> for a literal, non-empty pattern: leftmost matches, not overlapping.\<close>

function replaceAll :: "string \<Rightarrow> string \<Rightarrow> string \<Rightarrow> string" where
  "replaceAll pat rep [] = []"
| "replaceAll pat rep (c # cs) =
     (if pat \<noteq> [] \<and> startsWith (c # cs) pat
      then rep @ replaceAll pat rep (drop (length pat) (c # cs))
      else c # replaceAll pat rep cs)"
  by pat_completeness auto
termination
  by (relation "measure (\<lambda>(pat, rep, s). length s)") auto

text \<open>The text before the first occurrence of a non-empty separator (all of it when there is none).\<close>

fun beforeFirst :: "string \<Rightarrow> string \<Rightarrow> string" where
  "beforeFirst sep [] = []"
| "beforeFirst sep (c # cs) = (if startsWith (c # cs) sep then [] else c # beforeFirst sep cs)"

text \<open>
  \<open>s.split(sep)[0]\<close>. With the empty separator \<open>split\<close> cuts between all characters, so the
  first element is the first character, and there is none (\<open>undefined\<close>) for the empty string.
\<close>

definition split0 :: "string \<Rightarrow> string \<Rightarrow> string option" where
  "split0 s sep =
     (if sep = [] then (case s of [] \<Rightarrow> None | c # cs \<Rightarrow> Some [c])
      else Some (beforeFirst sep s))"

text \<open>\<open>xs.join(sep)\<close>.\<close>

fun join :: "string \<Rightarrow> string list \<Rightarrow> string" where
  "join sep [] = []"
| "join sep [x] = x"
| "join sep (x # y # ys) = x @ sep @ join sep (y # ys)"

text \<open>Decimal rendering of a number, as \<open>join\<close> does for a numeric array element.\<close>

fun toString :: "nat \<Rightarrow> string" where
  "toString n = (if n < 10 then [''0123456789'' ! n]
                 else toString (n div 10) @ [''0123456789'' ! (n mod 10)])"

declare toString.simps [simp del]

section \<open>Durable client-side storage and the browser window\<close>

text \<open>\<open>localStorage\<close>: string keys to string values.\<close>

type_synonym storage = "(string \<times> string) list"

definition getItem :: "storage \<Rightarrow> string \<Rightarrow> string option" where
  "getItem st k = map_of st k"

definition setItem :: "storage \<Rightarrow> string \<Rightarrow> string \<Rightarrow> storage" where
  "setItem st k v = AList.update k v st"

definition removeItem :: "storage \<Rightarrow> string \<Rightarrow> storage" where
  "removeItem st k = AList.delete k st"

text \<open>
  The global \<open>window\<close>: its storage and the parts of \<open>window.location\<close> the source reads or
  assigns. Where \<open>typeof window === 'undefined'\<close> (server-side rendering) there is no window
  and no storage.
\<close>

record window =
  localStorage :: storage
  href :: string
  protocol :: string
  hostname :: string
  origin :: string

section \<open>The API client (src/lib/api.ts)\<close>

text \<open>
  \<open>class ApiClient\<close>: the two private token fields, \<open>baseURL\<close> and \<open>isProduction\<close> (second
  variant of the file; the first variant uses the module constant \<open>API_BASE_URL\<close> and has no
  production flag), together with the global window the methods act on.
\<close>

record state =
  accessToken :: "string option"
  refreshToken :: "string option"
  apiBaseURL :: string
  isProduction :: bool
  win :: "window option"

text \<open>What durable storage holds: the value under a key, and the set of keys (nothing without a window).\<close>

definition storedToken :: "state \<Rightarrow> string \<Rightarrow> string option" where
  "storedToken s k = (case win s of None \<Rightarrow> None | Some w \<Rightarrow> getItem (localStorage w) k)"

definition storedKeys :: "state \<Rightarrow> string set" where
  "storedKeys s = (case win s of None \<Rightarrow> {} | Some w \<Rightarrow> fst ` set (localStorage w))"

text \<open>The file exists in two variants, which differ in the request interceptor and URL handling.\<close>

datatype variant = V1 | V2

definition setAccessToken :: "state \<Rightarrow> string option \<Rightarrow> state" where
  "setAccessToken s token =
     (let s1 = s\<lparr>accessToken := token\<rparr>
      in case win s1 of
           None \<Rightarrow> s1
         | Some w \<Rightarrow>
             if truthy token
             then s1\<lparr>win := Some (w\<lparr>localStorage := setItem (localStorage w) ''access_token'' (the token)\<rparr>)\<rparr>
             else s1\<lparr>win := Some (w\<lparr>localStorage := removeItem (localStorage w) ''access_token''\<rparr>)\<rparr>)"

definition setRefreshToken :: "state \<Rightarrow> string option \<Rightarrow> state" where
  "setRefreshToken s token =
     (let s1 = s\<lparr>refreshToken := token\<rparr>
      in case win s1 of
           None \<Rightarrow> s1
         | Some w \<Rightarrow>
             if truthy token
             then s1\<lparr>win := Some (w\<lparr>localStorage := setItem (localStorage w) ''refresh_token'' (the token)\<rparr>)\<rparr>
             else s1\<lparr>win := Some (w\<lparr>localStorage := removeItem (localStorage w) ''refresh_token''\<rparr>)\<rparr>)"

definition clearTokens :: "state \<Rightarrow> state" where
  "clearTokens s =
     (let s1 = s\<lparr>accessToken := None, refreshToken := None\<rparr>
      in case win s1 of
           None \<Rightarrow> s1
         | Some w \<Rightarrow>
             s1\<lparr>win := Some (w\<lparr>localStorage :=
                   removeItem (removeItem (localStorage w) ''access_token'') ''refresh_token''\<rparr>)\<rparr>)"


subsection \<open>Requests, responses and errors\<close>

text \<open>Request bodies the client sends (src/types: SignInRequest, RefreshTokenRequest, ...).\<close>

datatype body =
    NoBody
  | SignInRequest string string
  | RefreshTokenRequest string
  | SignOutRequest string
  | Json string

text \<open>
  An axios request configuration: the fields the interceptors read or write.
  \<open>httpMethod\<close> is \<open>config.method\<close>, \<open>Authorization\<close> is \<open>config.headers.Authorization\<close>,
  \<open>headers\<close> the remaining headers, \<open>data\<close> the body, \<open>retry\<close> the one-shot mark \<open>_retry\<close>
  (absent is \<open>False\<close>).
\<close>

record request_config =
  url :: "string option"
  baseURL :: "string option"
  httpMethod :: "string option"
  Authorization :: "string option"
  headers :: "(string \<times> string) list"
  data :: body
  retry :: bool

datatype role = admin | student

record User =
  user_id :: nat
  email :: string
  role :: role

text \<open>A FastAPI validation error \<open>{loc, msg}\<close>; \<open>loc\<close> holds field names and indices.\<close>

datatype loc_item = LocStr string | LocNum nat

record validation_error =
  loc :: "loc_item list option"
  msg :: "string option"

datatype detail = DetailString string | DetailArray "validation_error list" | DetailOther

text \<open>
  A response body: an object whose properties may be absent (AuthResponse, User and the
  failure body with \<open>detail\<close>). \<open>response.data\<close> is \<open>None\<close> for an empty body, which
  is falsy and whose properties all read as \<open>undefined\<close>.
\<close>

record payload =
  access_token :: "string option"
  refresh_token :: "string option"
  identity :: "User option"
  detail :: detail

record http_response =
  status :: nat
  payload :: "payload option"

definition property :: "(payload \<Rightarrow> 'a option) \<Rightarrow> payload option \<Rightarrow> 'a option" where
  "property f d = (case d of None \<Rightarrow> None | Some p \<Rightarrow> f p)"

text \<open>An \<open>AxiosError\<close>: the request it belongs to, the response if one arrived, code and message.\<close>

record axios_error =
  config :: "request_config option"
  response :: "http_response option"
  code :: "string option"
  message :: "string option"

text \<open>What a promise can reject with.\<close>

datatype rejection = AxiosError axios_error | TypeError | ReferenceError

text \<open>
  The backend and the network are the environment. Every dispatch is recorded in a trace,
  tagged with the axios instance that sent it, and the adapter answers a dispatch from the
  history so far: with a response that axios fulfils, or with a rejection (a response with a
  failure status, or none at all for a timeout or an unreachable server).
\<close>

datatype channel = MainClient | RefreshClient

type_synonym trace = "(channel \<times> request_config) list"

datatype adapter_result =
    Fulfilled http_response
  | Rejected "http_response option" "string option" "string option"

type_synonym adapter = "trace \<Rightarrow> channel \<times> request_config \<Rightarrow> adapter_result"

subsection \<open>Request interceptor\<close>

text \<open>First variant (api.ts lines 47-55).\<close>

definition requestInterceptor1 :: "state \<Rightarrow> request_config \<Rightarrow> state \<times> request_config" where
  "requestInterceptor1 s cfg =
     (if truthy (accessToken s)
      then (s, cfg\<lparr>Authorization := Some (''Bearer '' @ template (accessToken s))\<rparr>)
      else (s, cfg))"

text \<open>
  Second variant (api.ts lines 524-704): the URL parts are forced to HTTPS first, then the
  access token is reloaded from storage and attached.
\<close>

definition prodDomain :: string where
  "prodDomain = ''internhubapi.sadn.site''"

definition prodURL :: string where
  "prodURL = ''https://internhubapi.sadn.site/api/v2''"

text \<open>\<open>.replace(/^http:\/\//, 'https://')\<close> and \<open>.replace(/http:\/\//g, 'https://')\<close>.\<close>

definition https1 :: "string \<Rightarrow> string" where
  "https1 = replacePrefix ''http://'' ''https://''"

definition httpsAll :: "string \<Rightarrow> string" where
  "httpsAll = replaceAll ''http://'' ''https://''"

text \<open>\<open>x?.includes(p)\<close> and \<open>x?.startsWith(p)\<close> on a possibly absent string.\<close>

definition has :: "string option \<Rightarrow> string \<Rightarrow> bool" where
  "has t p = (case t of None \<Rightarrow> False | Some s \<Rightarrow> str_includes s p)"

definition starts :: "string option \<Rightarrow> string \<Rightarrow> bool" where
  "starts t p = (case t of None \<Rightarrow> False | Some s \<Rightarrow> startsWith s p)"

text \<open>Lines 528-538, and again lines 598-609.\<close>

definition forceBaseURL :: "request_config \<Rightarrow> request_config" where
  "forceBaseURL c =
     (if truthy (baseURL c) \<and> has (baseURL c) prodDomain then
        let c1 = (if starts (baseURL c) ''http://''
                  then c\<lparr>baseURL := map_option (\<lambda>b. httpsAll (https1 b)) (baseURL c)\<rparr> else c)
        in if \<not> starts (baseURL c1) ''https://'' then c1\<lparr>baseURL := Some prodURL\<rparr> else c1
      else c)"

text \<open>Lines 541-565.\<close>

definition forceProduction :: "bool \<Rightarrow> request_config \<Rightarrow> request_config" where
  "forceProduction isProd c =
     (if isProd then
        let c1 = (if truthy (baseURL c) then c\<lparr>baseURL := map_option https1 (baseURL c)\<rparr> else c);
            c2 = (if truthy (url c1) \<and> starts (url c1) ''http://''
                  then c1\<lparr>url := map_option https1 (url c1)\<rparr> else c1)
        in if truthy (baseURL c2) \<and> truthy (url c2) then
             if has (baseURL c2) prodDomain \<or> has (url c2) prodDomain then
               let c3 = c2\<lparr>baseURL := map_option https1 (baseURL c2)\<rparr>
               in if starts (url c3) ''http://'' then c3\<lparr>url := map_option https1 (url c3)\<rparr> else c3
             else c2
           else c2
      else c)"

text \<open>Lines 568-575.\<close>

definition forceDomain :: "request_config \<Rightarrow> request_config" where
  "forceDomain c =
     (let c1 = (if has (baseURL c) prodDomain then c\<lparr>baseURL := map_option https1 (baseURL c)\<rparr> else c)
      in if has (url c1) prodDomain
         then c1\<lparr>url := map_option (replaceAll (''http://'' @ prodDomain) (''https://'' @ prodDomain)) (url c1)\<rparr>
         else c1)"

text \<open>The full URL as lines 579-581 and 613-615 assemble it.\<close>

definition fullUrl :: "request_config \<Rightarrow> string option" where
  "fullUrl c =
     (if truthy (url c)
      then (if starts (url c) ''http'' then url c else Some (template (baseURL c) @ the (url c)))
      else baseURL c)"

text \<open>
  Lines 578-594; \<open>setUrl\<close> tells the two copies apart: the second (lines 612-628) leaves
  \<open>config.url\<close> alone in its else branch.
\<close>

definition forceFullUrl :: "bool \<Rightarrow> bool \<Rightarrow> request_config \<Rightarrow> request_config" where
  "forceFullUrl setUrl isProd c =
     (if isProd then
        let full = fullUrl c
        in if truthy full \<and> has full prodDomain \<and> starts full ''http://'' then
             let httpsUrl = https1 (the full)
             in if truthy (url c) \<and> starts (url c) ''http''
                then c\<lparr>url := Some httpsUrl, baseURL := Some []\<rparr>
                else let c1 = c\<lparr>baseURL := Some (the (split0 httpsUrl ''/api/v2'') @ ''/api/v2'')\<rparr>
                     in if setUrl then c1\<lparr>url := Some (or_else (url c1) [])\<rparr> else c1
           else c
      else c)"

text \<open>Lines 631-652.\<close>

definition forceFinalUrl :: "bool \<Rightarrow> request_config \<Rightarrow> request_config" where
  "forceFinalUrl isProd c =
     (if isProd \<and> truthy (baseURL c) then
        if truthy (url c) \<and> starts (url c) ''http://''
        then c\<lparr>url := map_option https1 (url c), baseURL := Some []\<rparr>
        else if truthy (url c) \<and> starts (url c) ''https://'' then c
        else
          let base = https1 (the (baseURL c));
              path = or_else (url c) [];
              finalUrl = base @ path
          in if str_includes finalUrl prodDomain \<and> startsWith finalUrl ''http://''
             then c\<lparr>baseURL := split0 (https1 finalUrl) path\<rparr>
             else c
      else c)"

text \<open>Lines 657-662: the access token is reloaded from storage before each request.\<close>

definition reloadAccessToken :: "state \<Rightarrow> state" where
  "reloadAccessToken s =
     (case win s of
        None \<Rightarrow> s
      | Some w \<Rightarrow>
          let stored = getItem (localStorage w) ''access_token''
          in if truthy stored \<and> stored \<noteq> accessToken s
             then s\<lparr>accessToken := stored\<rparr> else s)"

text \<open>Lines 675-699.\<close>

definition debugPost :: "bool \<Rightarrow> request_config \<Rightarrow> request_config" where
  "debugPost isProd c =
     (if isProd \<and> httpMethod c = Some ''POST'' \<and> truthy (baseURL c) \<and> truthy (url c) then
        let debugUrl = (if starts (url c) ''http'' then the (url c) else the (baseURL c) @ the (url c))
        in if str_includes debugUrl prodDomain \<and> startsWith debugUrl ''http://'' then
             if starts (url c) ''http'' then c\<lparr>url := Some (https1 debugUrl), baseURL := Some []\<rparr> else c
           else c
      else c)"

definition requestInterceptor2 :: "state \<Rightarrow> request_config \<Rightarrow> state \<times> request_config" where
  "requestInterceptor2 s cfg =
     (let isProd = isProduction s;
          c1 = forceBaseURL cfg;
          c2 = forceProduction isProd c1;
          c3 = forceDomain c2;
          c4 = forceFullUrl True isProd c3;
          c5 = forceBaseURL c4;
          c6 = forceFullUrl False isProd c5;
          c7 = forceFinalUrl isProd c6;
          s1 = reloadAccessToken s;
          c8 = (if truthy (accessToken s1)
                then c7\<lparr>Authorization := Some (''Bearer '' @ template (accessToken s1))\<rparr> else c7)
      in (s1, debugPost isProd c8))"

fun requestInterceptor :: "variant \<Rightarrow> state \<Rightarrow> request_config \<Rightarrow> state \<times> request_config" where
  "requestInterceptor V1 = requestInterceptor1"
| "requestInterceptor V2 = requestInterceptor2"


text \<open>
  The URL rewriting touches \<open>baseURL\<close> and \<open>url\<close> only. In particular the retry mark
  survives the request interceptor; the recursion below depends on it.
\<close>

lemma forceBaseURL_fields:
  "httpMethod (forceBaseURL c) = httpMethod c" "Authorization (forceBaseURL c) = Authorization c"
  "headers (forceBaseURL c) = headers c" "data (forceBaseURL c) = data c"
  "retry (forceBaseURL c) = retry c"
  by (simp_all add: forceBaseURL_def Let_def)

lemma forceProduction_fields:
  "httpMethod (forceProduction p c) = httpMethod c" "Authorization (forceProduction p c) = Authorization c"
  "headers (forceProduction p c) = headers c" "data (forceProduction p c) = data c"
  "retry (forceProduction p c) = retry c"
  by (simp_all add: forceProduction_def Let_def)

lemma forceDomain_fields:
  "httpMethod (forceDomain c) = httpMethod c" "Authorization (forceDomain c) = Authorization c"
  "headers (forceDomain c) = headers c" "data (forceDomain c) = data c"
  "retry (forceDomain c) = retry c"
  by (simp_all add: forceDomain_def Let_def)

lemma forceFullUrl_fields:
  "httpMethod (forceFullUrl u p c) = httpMethod c" "Authorization (forceFullUrl u p c) = Authorization c"
  "headers (forceFullUrl u p c) = headers c" "data (forceFullUrl u p c) = data c"
  "retry (forceFullUrl u p c) = retry c"
  by (simp_all add: forceFullUrl_def Let_def)

lemma forceFinalUrl_fields:
  "httpMethod (forceFinalUrl p c) = httpMethod c" "Authorization (forceFinalUrl p c) = Authorization c"
  "headers (forceFinalUrl p c) = headers c" "data (forceFinalUrl p c) = data c"
  "retry (forceFinalUrl p c) = retry c"
  by (simp_all add: forceFinalUrl_def Let_def)

lemma debugPost_fields:
  "httpMethod (debugPost p c) = httpMethod c" "Authorization (debugPost p c) = Authorization c"
  "headers (debugPost p c) = headers c" "data (debugPost p c) = data c"
  "retry (debugPost p c) = retry c"
  by (simp_all add: debugPost_def Let_def)

lemmas force_fields = forceBaseURL_fields forceProduction_fields forceDomain_fields
  forceFullUrl_fields forceFinalUrl_fields debugPost_fields

lemma requestInterceptor_retry: "retry (snd (requestInterceptor v s cfg)) = retry cfg"
  by (cases v) (simp_all add: requestInterceptor1_def requestInterceptor2_def Let_def force_fields)

subsection \<open>Refresh call\<close>

text \<open>
  \<open>refreshAccessToken\<close> posts on an axios instance of its own, which has no response
  interceptor. In the second variant the base URL and the request are forced to HTTPS
  (lines 868-906).
\<close>

definition refreshInterceptor :: "bool \<Rightarrow> request_config \<Rightarrow> request_config" where
  "refreshInterceptor isProd c =
     (let c1 = (if isProd \<or> has (baseURL c) prodDomain then
                  let d1 = (if truthy (baseURL c)
                            then c\<lparr>baseURL := map_option (\<lambda>b. httpsAll (https1 b)) (baseURL c)\<rparr> else c)
                  in if truthy (url d1)
                     then d1\<lparr>url := map_option (\<lambda>u. httpsAll (https1 u)) (url d1)\<rparr> else d1
                else c)
      in forceDomain c1)"

definition refreshConfig :: "variant \<Rightarrow> state \<Rightarrow> string \<Rightarrow> request_config" where
  "refreshConfig v s token =
     (let refreshBaseUrl =
            (if v = V2 \<and> (isProduction s \<or> str_includes (apiBaseURL s) prodDomain)
             then httpsAll (https1 (apiBaseURL s)) else apiBaseURL s);
          c = \<lparr>url = Some ''/auth/refresh'', baseURL = Some refreshBaseUrl, httpMethod = Some ''post'',
               Authorization = None, headers = [(''Content-Type'', ''application/json'')],
               data = RefreshTokenRequest token, retry = False\<rparr>
      in if v = V2 then refreshInterceptor (isProduction s) c else c)"

definition refreshAccessToken ::
  "variant \<Rightarrow> adapter \<Rightarrow> state \<Rightarrow> trace \<Rightarrow> string \<Rightarrow> (rejection + payload option) \<times> trace" where
  "refreshAccessToken v net s tr token =
     (let call = (RefreshClient, refreshConfig v s token)
      in case net tr call of
           Fulfilled r \<Rightarrow> (Inr (payload r), tr @ [call])
         | Rejected resp c m \<Rightarrow>
             (Inl (AxiosError \<lparr>config = Some (snd call), response = resp, code = c, message = m\<rparr>),
              tr @ [call]))"

text \<open>\<open>refreshError?.response?.status\<close>.\<close>

fun rejection_status :: "rejection \<Rightarrow> nat option" where
  "rejection_status (AxiosError e) = map_option status (response e)"
| "rejection_status TypeError = None"
| "rejection_status ReferenceError = None"

text \<open>\<open>window.location.href = '/login'\<close>, guarded by the window test.\<close>

definition redirectToLogin :: "state \<Rightarrow> state" where
  "redirectToLogin s =
     (case win s of None \<Rightarrow> s | Some w \<Rightarrow> s\<lparr>win := Some (w\<lparr>href := ''/login''\<rparr>)\<rparr>)"

subsection \<open>Sending a request through the client, and the response interceptor\<close>

text \<open>
  \<open>this.client(config)\<close> runs the request interceptor, dispatches, and hands a rejection to
  the response interceptor (lines 58-98 and 707-777, which differ in logging only). The
  interceptor re-issues the original request with \<open>this.client(originalRequest)\<close>, so the
  two functions are mutually recursive. axios keeps the properties of the configuration it
  is given, so the re-issued request still carries \<open>_retry\<close>. Setting \<open>_retry\<close> mutates the
  object that \<open>error.config\<close> refers to, so the error rejected later shows the mark. The
  re-issue is returned from the \<open>try\<close> block without \<open>await\<close>, so its rejection is the
  interceptor's result and does not reach the \<open>catch\<close>. Reading \<open>originalRequest._retry\<close>
  of an error without a configuration is a \<open>TypeError\<close>.
\<close>

function client_request ::
    "variant \<Rightarrow> adapter \<Rightarrow> state \<Rightarrow> trace \<Rightarrow> request_config \<Rightarrow> (rejection + http_response) \<times> state \<times> trace"
  and responseInterceptor ::
    "variant \<Rightarrow> adapter \<Rightarrow> state \<Rightarrow> trace \<Rightarrow> axios_error \<Rightarrow> (rejection + http_response) \<times> state \<times> trace"
where
  "client_request v net s tr cfg =
     (let s1 = fst (requestInterceptor v s cfg);
          cfg1 = snd (requestInterceptor v s cfg);
          tr1 = tr @ [(MainClient, cfg1)]
      in case net tr (MainClient, cfg1) of
           Fulfilled r \<Rightarrow> (Inr r, s1, tr1)
         | Rejected resp c m \<Rightarrow>
             responseInterceptor v net s1 tr1
               \<lparr>config = Some cfg1, response = resp, code = c, message = m\<rparr>)"
| "responseInterceptor v net s tr error =
     (let isAuthError = (map_option status (response error) = Some 401)
      in if \<not> isAuthError then (Inl (AxiosError error), s, tr)
         else case config error of
           None \<Rightarrow> (Inl TypeError, s, tr)
         | Some originalRequest \<Rightarrow>
             let isRefreshEndpoint = has (url originalRequest) ''/auth/refresh''
             in if \<not> retry originalRequest \<and> \<not> isRefreshEndpoint \<and> truthy (refreshToken s) then
                  let originalRequest1 = originalRequest\<lparr>retry := True\<rparr>;
                      error1 = error\<lparr>config := Some originalRequest1\<rparr>
                  in case refreshAccessToken v net s tr (the (refreshToken s)) of
                       (Inr newTokens, tr1) \<Rightarrow>
                         let s1 = setAccessToken s (property access_token newTokens);
                             s2 = (if truthy (property refresh_token newTokens)
                                   then setRefreshToken s1 (property refresh_token newTokens) else s1);
                             originalRequest2 = originalRequest1
                               \<lparr>Authorization := Some (''Bearer '' @ template (property access_token newTokens))\<rparr>
                         in client_request v net s2 tr1 originalRequest2
                     | (Inl refreshError, tr1) \<Rightarrow>
                         let s1 = (if rejection_status refreshError = Some 401
                                      \<or> rejection_status refreshError = Some 403
                                   then redirectToLogin (clearTokens s) else s)
                         in (Inl (AxiosError error1), s1, tr1)
                else (Inl (AxiosError error), s, tr))"
  by pat_completeness auto
termination
  by (relation "measure (\<lambda>x. case x of
          Inl (v, net, s, tr, cfg) \<Rightarrow> (if retry cfg then 1 else 3)
        | Inr (v, net, s, tr, error) \<Rightarrow>
            (case config error of None \<Rightarrow> 0 | Some c \<Rightarrow> if retry c then 0 else 2))")
    (auto simp: requestInterceptor_retry)


declare client_request.simps [simp del] responseInterceptor.simps [simp del]

subsection \<open>Auth endpoints\<close>

text \<open>The configuration axios builds for \<open>this.client.post(path, body)\<close> and \<open>this.client.get(path)\<close>.\<close>

definition post_config :: "state \<Rightarrow> string \<Rightarrow> body \<Rightarrow> request_config" where
  "post_config s path b =
     \<lparr>url = Some path, baseURL = Some (apiBaseURL s), httpMethod = Some ''post'', Authorization = None,
      headers = [(''Content-Type'', ''application/json'')], data = b, retry = False\<rparr>"

definition get_config :: "state \<Rightarrow> string \<Rightarrow> request_config" where
  "get_config s path =
     \<lparr>url = Some path, baseURL = Some (apiBaseURL s), httpMethod = Some ''get'', Authorization = None,
      headers = [(''Content-Type'', ''application/json'')], data = NoBody, retry = False\<rparr>"

definition signIn ::
  "variant \<Rightarrow> adapter \<Rightarrow> state \<Rightarrow> trace \<Rightarrow> string \<Rightarrow> string \<Rightarrow> (rejection + payload option) \<times> state \<times> trace" where
  "signIn v net s tr mail password =
     (case client_request v net s tr (post_config s ''/auth/sign-in'' (SignInRequest mail password)) of
        (Inl e, s1, tr1) \<Rightarrow> (Inl e, s1, tr1)
      | (Inr r, s1, tr1) \<Rightarrow>
          let s2 = setAccessToken s1 (property access_token (payload r));
              s3 = (if truthy (property refresh_token (payload r))
                    then setRefreshToken s2 (property refresh_token (payload r)) else s2)
          in (Inr (payload r), s3, tr1))"

definition getCurrentUser ::
  "variant \<Rightarrow> adapter \<Rightarrow> state \<Rightarrow> trace \<Rightarrow> (rejection + User option) \<times> state \<times> trace" where
  "getCurrentUser v net s tr =
     (case client_request v net s tr (get_config s ''/auth/me'') of
        (Inl e, s1, tr1) \<Rightarrow> (Inl e, s1, tr1)
      | (Inr r, s1, tr1) \<Rightarrow> (Inr (property identity (payload r)), s1, tr1))"

text \<open>\<open>signOut\<close>: the notification is tried, every failure of it is swallowed, the tokens are cleared.\<close>

definition signOut ::
  "variant \<Rightarrow> adapter \<Rightarrow> state \<Rightarrow> trace \<Rightarrow> string option \<Rightarrow> (rejection + unit) \<times> state \<times> trace" where
  "signOut v net s tr token =
     (let after = (if truthy token
                   then snd (client_request v net s tr
                               (post_config s ''/auth/sign-out'' (SignOutRequest (the token))))
                   else (s, tr))
      in (Inr (), clearTokens (fst after), snd after))"

text \<open>
  The constructor loads both tokens from storage when there is a window. The base URL is the
  value the module computed from the environment. \<open>isProduction\<close> exists in the second
  variant only.
\<close>

definition newApiClient :: "variant \<Rightarrow> string \<Rightarrow> window option \<Rightarrow> state" where
  "newApiClient v base w =
     \<lparr>accessToken = (case w of None \<Rightarrow> None | Some x \<Rightarrow> getItem (localStorage x) ''access_token''),
      refreshToken = (case w of None \<Rightarrow> None | Some x \<Rightarrow> getItem (localStorage x) ''refresh_token''),
      apiBaseURL = base,
      isProduction = (v = V2 \<and> (case w of None \<Rightarrow> False
                        | Some x \<Rightarrow> protocol x = ''https:'' \<or> str_includes (hostname x) ''internhub.sadn.site'')),
      win = w\<rparr>"

section \<open>The error formatter (formatApiError)\<close>

definition loc_text :: "loc_item \<Rightarrow> string" where
  "loc_text i = (case i of LocStr t \<Rightarrow> t | LocNum n \<Rightarrow> toString n)"

text \<open>One entry of a validation error array (the function mapped over \<open>detail\<close>).\<close>

definition formatValidationError :: "validation_error \<Rightarrow> string" where
  "formatValidationError err =
     (let field = or_else (map_option (\<lambda>l. join ''.'' (map loc_text (drop 1 l))) (loc err)) ''field'';
          message = or_else (msg err) ''Invalid value''
      in field @ '': '' @ message)"

text \<open>
  \<open>apiUrl\<close> is \<open>process.env.NEXT_PUBLIC_API_BASE_URL || 'http://localhost:8000/api/v2'\<close> (the
  constant \<open>API_BASE_URL\<close> of the first variant). The argument is \<open>any\<close>: \<open>None\<close> is a null error.
  The CORS branch reads \<open>window.location.origin\<close> without a window test.
\<close>

definition formatApiError :: "window option \<Rightarrow> string option \<Rightarrow> axios_error option \<Rightarrow> rejection + string" where
  "formatApiError w env error =
     (let apiUrl = or_else env ''http://localhost:8000/api/v2'';
          c = (case error of None \<Rightarrow> None | Some e \<Rightarrow> code e);
          m = (case error of None \<Rightarrow> None | Some e \<Rightarrow> message e)
      in case (case error of None \<Rightarrow> None | Some e \<Rightarrow> response e) of
           None \<Rightarrow>
             if c = Some ''ECONNABORTED'' \<or> has m ''timeout''
             then Inr ''Request timeout. Please check your connection and try again.''
             else if has m ''CORS'' \<or> has m ''cross-origin''
             then (case w of
                     None \<Rightarrow> Inl ReferenceError
                   | Some x \<Rightarrow>
                       Inr (''CORS error. Please check backend CORS configuration allows '' @ origin x))
             else if c = Some ''ERR_NETWORK'' \<or> has m ''Network Error'' \<or> has m ''Failed to fetch''
             then Inr (''Network error. Please check your connection and ensure the backend server is running at ''
                       @ apiUrl @ ''. Check browser console for details.'')
             else if c = Some ''ECONNREFUSED''
             then Inr (''Connection refused. Is the backend server running at '' @ apiUrl @ ''?'')
             else Inr (or_else m (''Network error. Please check your connection to '' @ apiUrl
                                   @ ''. Check browser console for details.''))
         | Some r \<Rightarrow>
             (case payload r of
                None \<Rightarrow> Inr (or_else m ''An unexpected error occurred'')
              | Some d \<Rightarrow>
                  (case detail d of
                     DetailString t \<Rightarrow> Inr t
                   | DetailArray errs \<Rightarrow> Inr (join '', '' (map formatValidationError errs))
                   | DetailOther \<Rightarrow> Inr ''An error occurred. Please try again.'')))"

text \<open>The messages for failures without a response, and the tests that select them, in source order.\<close>

definition timeoutMessage :: string where
  "timeoutMessage = ''Request timeout. Please check your connection and try again.''"

definition corsMessage :: "string \<Rightarrow> string" where
  "corsMessage page = ''CORS error. Please check backend CORS configuration allows '' @ page"

definition networkMessage :: "string \<Rightarrow> string" where
  "networkMessage apiUrl =
     ''Network error. Please check your connection and ensure the backend server is running at ''
     @ apiUrl @ ''. Check browser console for details.''"

definition refusedMessage :: "string \<Rightarrow> string" where
  "refusedMessage apiUrl = ''Connection refused. Is the backend server running at '' @ apiUrl @ ''?''"

definition genericMessage :: "string \<Rightarrow> string" where
  "genericMessage apiUrl =
     ''Network error. Please check your connection to '' @ apiUrl @ ''. Check browser console for details.''"

definition isTimeout :: "axios_error \<Rightarrow> bool" where
  "isTimeout e = (code e = Some ''ECONNABORTED'' \<or> has (message e) ''timeout'')"

definition isCors :: "axios_error \<Rightarrow> bool" where
  "isCors e = (has (message e) ''CORS'' \<or> has (message e) ''cross-origin'')"

definition isNetwork :: "axios_error \<Rightarrow> bool" where
  "isNetwork e = (code e = Some ''ERR_NETWORK'' \<or> has (message e) ''Network Error''
                  \<or> has (message e) ''Failed to fetch'')"

definition isRefused :: "axios_error \<Rightarrow> bool" where
  "isRefused e = (code e = Some ''ECONNREFUSED'')"

section \<open>The authentication context (src/contexts/AuthContext.tsx)\<close>

text \<open>The React state of \<open>AuthProvider\<close>: the resolved identity and the loading flag.\<close>

record auth_context =
  user :: "User option"
  loading :: bool

definition refreshUser ::
  "variant \<Rightarrow> adapter \<Rightarrow> auth_context \<Rightarrow> state \<Rightarrow> trace \<Rightarrow> auth_context \<times> state \<times> trace" where
  "refreshUser v net ctx s tr =
     (case getCurrentUser v net s tr of
        (Inr currentUser, s1, tr1) \<Rightarrow> (ctx\<lparr>user := currentUser, loading := False\<rparr>, s1, tr1)
      | (Inl error, s1, tr1) \<Rightarrow>
          if rejection_status error = Some 401 \<or> rejection_status error = Some 403
          then (ctx\<lparr>user := None, loading := False\<rparr>, clearTokens s1, tr1)
          else (ctx\<lparr>user := None, loading := False\<rparr>, s1, tr1))"

text \<open>A page load mounts the provider: fresh React state, a fresh client, then \<open>refreshUser\<close>.\<close>

definition mount ::
  "variant \<Rightarrow> adapter \<Rightarrow> string \<Rightarrow> window option \<Rightarrow> trace \<Rightarrow> auth_context \<times> state \<times> trace" where
  "mount v net base w tr =
     refreshUser v net \<lparr>user = None, loading = True\<rparr> (newApiClient v base w) tr"


section \<open>Example sessions, requests and backends\<close>

definition browser :: window where
  "browser = \<lparr>localStorage = [], href = ''/'', protocol = ''http:'', hostname = ''localhost'',
               origin = ''http://localhost:3000''\<rparr>"

definition localBase :: string where
  "localBase = ''http://localhost:8000/api/v2''"

text \<open>A signed-in session: access token \<open>t1\<close>, refresh token \<open>r1\<close>, both mirrored in storage.\<close>

definition signedIn :: state where
  "signedIn = \<lparr>accessToken = Some ''t1'', refreshToken = Some ''r1'', apiBaseURL = localBase,
                isProduction = False,
                win = Some (browser\<lparr>localStorage := [(''access_token'', ''t1''), (''refresh_token'', ''r1'')]\<rparr>)\<rparr>"

definition internships :: request_config where
  "internships = (get_config signedIn ''/internships'')\<lparr>Authorization := Some ''Bearer t1''\<rparr>"

definition failure :: "nat \<Rightarrow> axios_error" where
  "failure n = \<lparr>config = Some internships, response = Some \<lparr>status = n, payload = None\<rparr>,
                code = Some ''ERR_BAD_REQUEST'', message = Some ''Request failed''\<rparr>"

text \<open>The same request after one refresh, and its second rejection.\<close>

definition retried :: request_config where
  "retried = internships\<lparr>retry := True, Authorization := Some ''Bearer t2''\<rparr>"

definition retriedFailure :: axios_error where
  "retriedFailure = (failure 401)\<lparr>config := Some retried\<rparr>"

text \<open>A backend that cannot be reached.\<close>

definition unreachable :: adapter where
  "unreachable tr call = Rejected None (Some ''ERR_NETWORK'') (Some ''Network Error'')"

text \<open>A backend that rejects every call with the given status.\<close>

definition rejecting :: "nat \<Rightarrow> adapter" where
  "rejecting n tr call = Rejected (Some \<lparr>status = n, payload = None\<rparr>) (Some ''ERR_BAD_REQUEST'') None"

text \<open>The session after a rejected refresh: no tokens, storage emptied, the page sent to sign-in.\<close>

definition expired :: state where
  "expired = \<lparr>accessToken = None, refreshToken = None, apiBaseURL = localBase,
               isProduction = False, win = Some (browser\<lparr>href := ''/login''\<rparr>)\<rparr>"

definition alice :: User where
  "alice = \<lparr>user_id = 1, email = ''a@x.com'', role = student\<rparr>"

definition bob :: User where
  "bob = \<lparr>user_id = 2, email = ''b@x.com'', role = admin\<rparr>"

text \<open>
  The backend of the scenario: sign-in answers \<open>t1\<close> and \<open>r1\<close>; refresh with \<open>r1\<close> answers
  \<open>t2\<close> without a new refresh token; any other call succeeds only when it carries \<open>t2\<close>.
\<close>

definition scenario :: adapter where
  "scenario tr call =
     (if url (snd call) = Some ''/auth/sign-in''
      then Fulfilled \<lparr>status = 200, payload = Some \<lparr>access_token = Some ''t1'',
             refresh_token = Some ''r1'', identity = None, detail = DetailOther\<rparr>\<rparr>
      else if url (snd call) = Some ''/auth/refresh''
      then (if data (snd call) = RefreshTokenRequest ''r1''
            then Fulfilled \<lparr>status = 200, payload = Some \<lparr>access_token = Some ''t2'',
                   refresh_token = None, identity = None, detail = DetailOther\<rparr>\<rparr>
            else Rejected (Some \<lparr>status = 401, payload = None\<rparr>) (Some ''ERR_BAD_REQUEST'') None)
      else if Authorization (snd call) = Some ''Bearer t2''
      then Fulfilled \<lparr>status = 200, payload = None\<rparr>
      else Rejected (Some \<lparr>status = 401, payload = None\<rparr>) (Some ''ERR_BAD_REQUEST'') None)"

text \<open>A client constructed in a browser with empty storage.\<close>

definition freshClient :: "variant \<Rightarrow> state" where
  "freshClient v = newApiClient v localBase (Some browser)"

text \<open>The second variant on a page served over HTTPS, with the default base URL and no session.\<close>

definition httpsPage :: state where
  "httpsPage = newApiClient V2 localBase (Some (browser\<lparr>protocol := ''https:''\<rparr>))"

text \<open>The bodies and calls of the scenario.\<close>

definition tokens1 :: payload where
  "tokens1 = \<lparr>access_token = Some ''t1'', refresh_token = Some ''r1'', identity = None, detail = DetailOther\<rparr>"

definition tokens2 :: payload where
  "tokens2 = \<lparr>access_token = Some ''t2'', refresh_token = None, identity = None, detail = DetailOther\<rparr>"

definition signInCall :: request_config where
  "signInCall = post_config (freshClient V1) ''/auth/sign-in'' (SignInRequest ''a@x.com'' ''secret123'')"

definition refreshCall :: request_config where
  "refreshCall = refreshConfig V1 signedIn ''r1''"

text \<open>Failures for the error formatter: without a response, and with a \<open>detail\<close> body.\<close>

definition noResponse :: "string option \<Rightarrow> string option \<Rightarrow> axios_error" where
  "noResponse c m = \<lparr>config = Some internships, response = None, code = c, message = m\<rparr>"

definition withDetail :: "detail \<Rightarrow> axios_error" where
  "withDetail d =
     \<lparr>config = Some internships,
      response = Some \<lparr>status = 422, payload = Some \<lparr>access_token = None, refresh_token = None,
                         identity = None, detail = d\<rparr>\<rparr>,
      code = Some ''ERR_BAD_REQUEST'', message = Some ''Request failed with status code 422''\<rparr>"

definition emailRequired :: validation_error where
  "emailRequired = \<lparr>loc = Some [LocStr ''body'', LocStr ''email''], msg = Some ''field required''\<rparr>"

definition badItem :: validation_error where
  "badItem = \<lparr>loc = Some [LocStr ''body'', LocStr ''items'', LocNum 0], msg = None\<rparr>"

text \<open>
  A backend that answers every call with the given identity, the identity request of the
  signed-in session, and a context that has resolved an identity already.
\<close>

definition answers :: "User \<Rightarrow> adapter" where
  "answers u tr call =
     Fulfilled \<lparr>status = 200, payload = Some \<lparr>access_token = None, refresh_token = None,
                  identity = Some u, detail = DetailOther\<rparr>\<rparr>"


definition knowsAlice :: auth_context where
  "knowsAlice = \<lparr>user = Some alice, loading = False\<rparr>"

text \<open>A backend that rejects every refresh call with 401 and answers every other call with \<open>bob\<close>.\<close>

definition lenient :: adapter where
  "lenient tr call =
     (if fst call = RefreshClient
      then Rejected (Some \<lparr>status = 401, payload = None\<rparr>) (Some ''ERR_BAD_REQUEST'') None
      else answers bob tr call)"

section \<open>Storage and the token setters\<close>

lemma getItem_setItem: "getItem (setItem st k v) k' = (if k' = k then Some v else getItem st k')"
  by (simp add: getItem_def setItem_def update_conv')

lemma getItem_removeItem: "getItem (removeItem st k) k' = (if k' = k then None else getItem st k')"
  by (simp add: getItem_def removeItem_def delete_conv')

lemma keys_setItem: "fst ` set (setItem st k v) = insert k (fst ` set st)"
  by (simp add: setItem_def dom_update)

lemma keys_removeItem: "fst ` set (removeItem st k) = fst ` set st - {k}"
  by (auto simp add: removeItem_def AList.delete_eq)

lemma setAccessToken_fields:
  "accessToken (setAccessToken s t) = t"
  "refreshToken (setAccessToken s t) = refreshToken s"
  "apiBaseURL (setAccessToken s t) = apiBaseURL s"
  "isProduction (setAccessToken s t) = isProduction s"
  by (simp_all add: setAccessToken_def Let_def split: option.split)

lemma setRefreshToken_fields:
  "accessToken (setRefreshToken s t) = accessToken s"
  "refreshToken (setRefreshToken s t) = t"
  "apiBaseURL (setRefreshToken s t) = apiBaseURL s"
  "isProduction (setRefreshToken s t) = isProduction s"
  by (simp_all add: setRefreshToken_def Let_def split: option.split)

lemma clearTokens_fields:
  "accessToken (clearTokens s) = None"
  "refreshToken (clearTokens s) = None"
  "apiBaseURL (clearTokens s) = apiBaseURL s"
  "isProduction (clearTokens s) = isProduction s"
  by (simp_all add: clearTokens_def Let_def split: option.split)

lemma redirectToLogin_fields:
  "accessToken (redirectToLogin s) = accessToken s"
  "refreshToken (redirectToLogin s) = refreshToken s"
  "apiBaseURL (redirectToLogin s) = apiBaseURL s"
  "isProduction (redirectToLogin s) = isProduction s"
  by (simp_all add: redirectToLogin_def split: option.split)

lemma storedToken_setAccessToken:
  "storedToken (setAccessToken s t) k =
     (if win s = None then None
      else if k = ''access_token'' then (if truthy t then t else None)
      else storedToken s k)"
  by (auto simp add: storedToken_def setAccessToken_def Let_def getItem_setItem getItem_removeItem
        truthy_def split: option.split)

lemma storedToken_setRefreshToken:
  "storedToken (setRefreshToken s t) k =
     (if win s = None then None
      else if k = ''refresh_token'' then (if truthy t then t else None)
      else storedToken s k)"
  by (auto simp add: storedToken_def setRefreshToken_def Let_def getItem_setItem getItem_removeItem
        truthy_def split: option.split)

lemma storedToken_clearTokens:
  "storedToken (clearTokens s) k =
     (if k = ''access_token'' \<or> k = ''refresh_token'' then None else storedToken s k)"
  by (auto simp add: storedToken_def clearTokens_def Let_def getItem_removeItem split: option.split)

lemma storedToken_redirectToLogin: "storedToken (redirectToLogin s) k = storedToken s k"
  by (simp add: storedToken_def redirectToLogin_def split: option.split)

lemma storedKeys_setAccessToken: "storedKeys (setAccessToken s t) \<subseteq> insert ''access_token'' (storedKeys s)"
  by (auto simp add: storedKeys_def setAccessToken_def Let_def keys_setItem keys_removeItem split: option.split)

lemma storedKeys_setRefreshToken: "storedKeys (setRefreshToken s t) \<subseteq> insert ''refresh_token'' (storedKeys s)"
  by (auto simp add: storedKeys_def setRefreshToken_def Let_def keys_setItem keys_removeItem split: option.split)

lemma storedKeys_clearTokens: "storedKeys (clearTokens s) = storedKeys s - {''access_token'', ''refresh_token''}"
  by (auto simp add: storedKeys_def clearTokens_def Let_def keys_removeItem split: option.split)

lemma storedKeys_redirectToLogin: "storedKeys (redirectToLogin s) = storedKeys s"
  by (simp add: storedKeys_def redirectToLogin_def split: option.split)

section \<open>What the request interceptor changes\<close>

lemma reloadAccessToken_fields:
  "refreshToken (reloadAccessToken s) = refreshToken s"
  "apiBaseURL (reloadAccessToken s) = apiBaseURL s"
  "isProduction (reloadAccessToken s) = isProduction s"
  "win (reloadAccessToken s) = win s"
  by (simp_all add: reloadAccessToken_def Let_def split: option.split)

lemma reloadAccessToken_none:
  "storedToken s ''access_token'' = None \<Longrightarrow> reloadAccessToken s = s"
  by (auto simp add: reloadAccessToken_def storedToken_def Let_def truthy_def split: option.splits)

lemma requestInterceptor_state:
  "fst (requestInterceptor v s cfg) = (if v = V2 then reloadAccessToken s else s)"
  by (cases v) (simp_all add: requestInterceptor1_def requestInterceptor2_def Let_def)

lemma requestInterceptor_Authorization:
  "Authorization (snd (requestInterceptor v s cfg)) =
     (if truthy (accessToken (fst (requestInterceptor v s cfg)))
      then Some (''Bearer '' @ the (accessToken (fst (requestInterceptor v s cfg))))
      else Authorization cfg)"
  by (cases v)
     (auto simp add: requestInterceptor1_def requestInterceptor2_def Let_def force_fields
        template_def truthy_def split: option.split)

lemma requestInterceptor_fields:
  "httpMethod (snd (requestInterceptor v s cfg)) = httpMethod cfg"
  "headers (snd (requestInterceptor v s cfg)) = headers cfg"
  "data (snd (requestInterceptor v s cfg)) = data cfg"
  by (cases v; simp add: requestInterceptor1_def requestInterceptor2_def Let_def force_fields)+

section \<open>The response interceptor: when a refresh is attempted\<close>

lemma responseInterceptor_not_401:
  "map_option status (response error) \<noteq> Some 401 \<Longrightarrow>
   responseInterceptor v net s tr error = (Inl (AxiosError error), s, tr)"
  by (simp add: responseInterceptor.simps)

lemma responseInterceptor_guard:
  "config error = Some req \<Longrightarrow>
   retry req \<or> has (url req) ''/auth/refresh'' \<or> \<not> truthy (refreshToken s) \<Longrightarrow>
   responseInterceptor v net s tr error = (Inl (AxiosError error), s, tr)"
  by (auto simp add: responseInterceptor.simps Let_def)

lemma refreshAccessToken_trace:
  "snd (refreshAccessToken v net s tr t) = tr @ [(RefreshClient, refreshConfig v s t)]"
  by (simp add: refreshAccessToken_def Let_def split: adapter_result.split)

text \<open>A request that already carries the retry mark is dispatched once and its outcome returned.\<close>

lemma client_request_retried:
  "retry cfg \<Longrightarrow>
   client_request v net s tr cfg =
     (let s1 = fst (requestInterceptor v s cfg);
          cfg1 = snd (requestInterceptor v s cfg);
          tr1 = tr @ [(MainClient, cfg1)]
      in case net tr (MainClient, cfg1) of
           Fulfilled r \<Rightarrow> (Inr r, s1, tr1)
         | Rejected resp c m \<Rightarrow>
             (Inl (AxiosError \<lparr>config = Some cfg1, response = resp, code = c, message = m\<rparr>), s1, tr1))"
  by (subst client_request.simps)
     (simp add: Let_def responseInterceptor_guard requestInterceptor_retry split: adapter_result.split)

lemma client_request_retried_trace:
  "retry cfg \<Longrightarrow>
   snd (snd (client_request v net s tr cfg)) = tr @ [(MainClient, snd (requestInterceptor v s cfg))]"
  by (simp add: client_request_retried Let_def split: adapter_result.split)

text \<open>The calls the interceptor adds: none, the refresh call, or the refresh call and one re-issue.\<close>

lemma responseInterceptor_trace:
  "snd (snd (responseInterceptor v net s tr error)) = tr
   \<or> (\<exists>r. snd (snd (responseInterceptor v net s tr error)) = tr @ [(RefreshClient, r)])
   \<or> (\<exists>r m. snd (snd (responseInterceptor v net s tr error)) = tr @ [(RefreshClient, r), (MainClient, m)]
          \<and> retry m)"
proof (cases "map_option status (response error) = Some 401
              \<and> (\<exists>req. config error = Some req \<and> \<not> retry req \<and> \<not> has (url req) ''/auth/refresh'')
              \<and> truthy (refreshToken s)")
  case False
  then have "responseInterceptor v net s tr error = (Inl (AxiosError error), s, tr)
     \<or> responseInterceptor v net s tr error = (Inl TypeError, s, tr)"
    by (cases "config error") (auto simp add: responseInterceptor.simps Let_def)
  then show ?thesis by auto
next
  case True
  then obtain req where req: "config error = Some req" "\<not> retry req" "\<not> has (url req) ''/auth/refresh''"
    and st: "map_option status (response error) = Some 401" and rt: "truthy (refreshToken s)"
    by blast
  obtain res tr1 where ra: "refreshAccessToken v net s tr (the (refreshToken s)) = (res, tr1)"
    by (cases "refreshAccessToken v net s tr (the (refreshToken s))") auto
  then have tr1: "tr1 = tr @ [(RefreshClient, refreshConfig v s (the (refreshToken s)))]"
    using refreshAccessToken_trace [of v net s tr "the (refreshToken s)"] by simp
  show ?thesis
  proof (cases res)
    case (Inl e)
    then have "snd (snd (responseInterceptor v net s tr error)) = tr1"
      using req st rt ra by (simp add: responseInterceptor.simps Let_def)
    then show ?thesis using tr1 by simp
  next
    case (Inr newTokens)
    then show ?thesis
      using req st rt ra tr1
      by (simp add: responseInterceptor.simps Let_def client_request_retried_trace
            requestInterceptor_retry)
  qed
qed

lemma client_request_trace:
  "\<exists>m1. m1 = (MainClient, snd (requestInterceptor v s cfg)) \<and>
     (snd (snd (client_request v net s tr cfg)) = tr @ [m1]
      \<or> (\<exists>r. snd (snd (client_request v net s tr cfg)) = tr @ [m1, (RefreshClient, r)])
      \<or> (\<exists>r m2. snd (snd (client_request v net s tr cfg)) = tr @ [m1, (RefreshClient, r), (MainClient, m2)]
             \<and> retry m2))"
proof (cases "net tr (MainClient, snd (requestInterceptor v s cfg))")
  case (Fulfilled r)
  then show ?thesis by (simp add: client_request.simps Let_def)
next
  case (Rejected resp c m)
  then have eq: "client_request v net s tr cfg =
      responseInterceptor v net (fst (requestInterceptor v s cfg))
        (tr @ [(MainClient, snd (requestInterceptor v s cfg))])
        \<lparr>config = Some (snd (requestInterceptor v s cfg)), response = resp, code = c, message = m\<rparr>"
    by (simp add: client_request.simps Let_def)
  show ?thesis
    unfolding eq
    using responseInterceptor_trace [of v net "fst (requestInterceptor v s cfg)"
        "tr @ [(MainClient, snd (requestInterceptor v s cfg))]"
        "\<lparr>config = Some (snd (requestInterceptor v s cfg)), response = resp, code = c, message = m\<rparr>"]
    by auto
qed

text \<open>
  C2. A request that fails with an authentication rejection is re-issued at most once.
  If the failed request is the refresh call itself, or already carries the retry mark, or no
  refresh token is held, the interceptor rejects with the original error, leaves the session
  as it is and sends nothing. Sending any request through the client adds to the trace the
  request alone, or the request and one refresh call, or the request, one refresh call and
  one re-issue that carries the retry mark: at most one refresh call and at most two
  dispatches. A request that carries the retry mark is dispatched exactly once, so a
  rejection of the re-issued request, whatever its status, starts no further refresh. The recursion between \<open>client_request\<close> and
  \<open>responseInterceptor\<close> terminates (both are total functions).
\<close>

theorem retried_at_most_once:
  "(config error = Some req \<and>
      (retry req \<or> has (url req) ''/auth/refresh'' \<or> \<not> truthy (refreshToken s)) \<longrightarrow>
      responseInterceptor v net s tr error = (Inl (AxiosError error), s, tr))
   \<and> (\<exists>new. snd (snd (client_request v net s tr cfg)) = tr @ new
         \<and> (new = [(MainClient, snd (requestInterceptor v s cfg))]
              \<or> (\<exists>r. new = [(MainClient, snd (requestInterceptor v s cfg)), (RefreshClient, r)])
              \<or> (\<exists>r again. new = [(MainClient, snd (requestInterceptor v s cfg)), (RefreshClient, r),
                                    (MainClient, again)] \<and> retry again))
         \<and> length (filter (\<lambda>c. fst c = RefreshClient) new) \<le> 1
         \<and> length (filter (\<lambda>c. fst c = MainClient) new) \<le> 2)
   \<and> (retry cfg \<longrightarrow>
         snd (snd (client_request v net s tr cfg)) = tr @ [(MainClient, snd (requestInterceptor v s cfg))])"
proof (intro conjI impI)
  assume "config error = Some req \<and>
      (retry req \<or> has (url req) ''/auth/refresh'' \<or> \<not> truthy (refreshToken s))"
  then show "responseInterceptor v net s tr error = (Inl (AxiosError error), s, tr)"
    using responseInterceptor_guard by blast
next
  show "\<exists>new. snd (snd (client_request v net s tr cfg)) = tr @ new
         \<and> (new = [(MainClient, snd (requestInterceptor v s cfg))]
              \<or> (\<exists>r. new = [(MainClient, snd (requestInterceptor v s cfg)), (RefreshClient, r)])
              \<or> (\<exists>r again. new = [(MainClient, snd (requestInterceptor v s cfg)), (RefreshClient, r),
                                    (MainClient, again)] \<and> retry again))
         \<and> length (filter (\<lambda>c. fst c = RefreshClient) new) \<le> 1
         \<and> length (filter (\<lambda>c. fst c = MainClient) new) \<le> 2"
    using client_request_trace [of v s cfg net tr] by auto
next
  assume "retry cfg"
  then show "snd (snd (client_request v net s tr cfg)) = tr @ [(MainClient, snd (requestInterceptor v s cfg))]"
    by (rule client_request_retried_trace)
qed

theorem retried_at_most_once_witness:
  "config retriedFailure = Some retried \<and> retry retried
   \<and> responseInterceptor V1 (rejecting 401) signedIn [] retriedFailure
       = (Inl (AxiosError retriedFailure), signedIn, [])
   \<and> (\<exists>new. snd (snd (client_request V1 (rejecting 401) signedIn [] retried)) = [] @ new
         \<and> length (filter (\<lambda>c. fst c = RefreshClient) new) \<le> 1
         \<and> length (filter (\<lambda>c. fst c = MainClient) new) \<le> 2)
   \<and> snd (snd (client_request V1 (rejecting 401) signedIn [] retried))
       = [(MainClient, snd (requestInterceptor V1 signedIn retried))]"
proof -
  have h1: "config retriedFailure = Some retried" "retry retried"
    by (simp_all add: retriedFailure_def retried_def)
  show ?thesis
    using h1 retried_at_most_once [of retriedFailure retried signedIn V1 "rejecting 401" "[]" retried]
    by simp
qed

text \<open>
  C10. A failure whose response status is not 401 (or that has no response) never enters the
  refresh path: the interceptor rejects with the same error, and session, storage and trace
  are unchanged. Conversely, whenever the interceptor sends anything, the failure was a 401
  on a request without the retry mark, not addressed to the refresh endpoint, with a refresh
  token held.
\<close>

theorem only_401_enters_refresh:
  "(map_option status (response error) \<noteq> Some 401 \<longrightarrow>
      responseInterceptor v net s tr error = (Inl (AxiosError error), s, tr))
   \<and> (snd (snd (responseInterceptor v net s tr error)) \<noteq> tr \<longrightarrow>
        map_option status (response error) = Some 401 \<and> truthy (refreshToken s) \<and>
        (\<exists>req. config error = Some req \<and> \<not> retry req \<and> \<not> has (url req) ''/auth/refresh''))"
proof -
  have unchanged: "map_option status (response error) \<noteq> Some 401 \<longrightarrow>
      responseInterceptor v net s tr error = (Inl (AxiosError error), s, tr)"
    by (simp add: responseInterceptor_not_401)
  have entered: "map_option status (response error) = Some 401 \<and> truthy (refreshToken s) \<and>
        (\<exists>req. config error = Some req \<and> \<not> retry req \<and> \<not> has (url req) ''/auth/refresh'')"
    if ch: "snd (snd (responseInterceptor v net s tr error)) \<noteq> tr"
  proof (rule ccontr)
    assume "\<not> ?thesis"
    then have "responseInterceptor v net s tr error = (Inl (AxiosError error), s, tr)
       \<or> responseInterceptor v net s tr error = (Inl TypeError, s, tr)"
      by (cases "config error") (auto simp add: responseInterceptor.simps Let_def)
    with ch show False by auto
  qed
  show ?thesis using unchanged entered by blast
qed

theorem only_401_enters_refresh_witness:
  "map_option status (response (failure 403)) \<noteq> Some 401
   \<and> responseInterceptor V1 unreachable signedIn [] (failure 403)
       = (Inl (AxiosError (failure 403)), signedIn, [])
   \<and> snd (snd (responseInterceptor V1 unreachable signedIn [] (failure 401))) \<noteq> []
   \<and> map_option status (response (failure 401)) = Some 401 \<and> truthy (refreshToken signedIn)
   \<and> (\<exists>req. config (failure 401) = Some req \<and> \<not> retry req \<and> \<not> has (url req) ''/auth/refresh'')"
proof -
  have h1: "map_option status (response (failure 403)) \<noteq> Some 401"
    by (simp add: failure_def)
  have h2: "snd (snd (responseInterceptor V1 unreachable signedIn [] (failure 401))) \<noteq> []"
    by (simp add: responseInterceptor.simps failure_def internships_def get_config_def signedIn_def
          truthy_def has_def startsWith_def refreshAccessToken_def unreachable_def Let_def)
  show ?thesis
    using h1 h2 only_401_enters_refresh [of "failure 403" V1 unreachable signedIn "[]"]
      only_401_enters_refresh [of "failure 401" V1 unreachable signedIn "[]"]
    by simp
qed

section \<open>The outcome of the refresh call\<close>

lemma refreshAccessToken_rejected:
  "net tr (RefreshClient, refreshConfig v s t) = Rejected resp c m \<Longrightarrow>
   refreshAccessToken v net s tr t =
     (Inl (AxiosError \<lparr>config = Some (refreshConfig v s t), response = resp, code = c, message = m\<rparr>),
      tr @ [(RefreshClient, refreshConfig v s t)])"
  by (simp add: refreshAccessToken_def Let_def)

lemma refreshAccessToken_fulfilled:
  "net tr (RefreshClient, refreshConfig v s t) = Fulfilled r \<Longrightarrow>
   refreshAccessToken v net s tr t = (Inr (payload r), tr @ [(RefreshClient, refreshConfig v s t)])"
  by (simp add: refreshAccessToken_def Let_def)

lemma responseInterceptor_refresh_rejected:
  assumes "map_option status (response error) = Some 401" "config error = Some req"
    "\<not> retry req" "\<not> has (url req) ''/auth/refresh''" "truthy (refreshToken s)"
    "net tr (RefreshClient, refreshConfig v s (the (refreshToken s))) = Rejected resp c m"
  shows "responseInterceptor v net s tr error =
     (Inl (AxiosError (error\<lparr>config := Some (req\<lparr>retry := True\<rparr>)\<rparr>)),
      (if map_option status resp = Some 401 \<or> map_option status resp = Some 403
       then redirectToLogin (clearTokens s) else s),
      tr @ [(RefreshClient, refreshConfig v s (the (refreshToken s)))])"
  using assms
  by (simp add: responseInterceptor.simps Let_def refreshAccessToken_rejected)

lemma responseInterceptor_refresh_fulfilled:
  assumes "map_option status (response error) = Some 401" "config error = Some req"
    "\<not> retry req" "\<not> has (url req) ''/auth/refresh''" "truthy (refreshToken s)"
    "net tr (RefreshClient, refreshConfig v s (the (refreshToken s))) = Fulfilled r"
  shows "responseInterceptor v net s tr error =
     client_request v net
       (let s1 = setAccessToken s (property access_token (payload r))
        in if truthy (property refresh_token (payload r))
           then setRefreshToken s1 (property refresh_token (payload r)) else s1)
       (tr @ [(RefreshClient, refreshConfig v s (the (refreshToken s)))])
       (req\<lparr>retry := True,
             Authorization := Some (''Bearer '' @ template (property access_token (payload r)))\<rparr>)"
  using assms
  by (simp add: responseInterceptor.simps Let_def refreshAccessToken_fulfilled)

text \<open>
  C3. When the refresh call made for a 401 failure is itself rejected without a 401 or 403
  response (no response at all for a timeout or an unreachable backend), the interceptor
  leaves the whole session untouched: access token, refresh token and storage. It rejects
  with the error of the original request, whose response, code and message are unchanged
  (its request now carries the retry mark); the refresh call's error is dropped.
\<close>

theorem refresh_network_failure_keeps_session:
  assumes "map_option status (response error) = Some 401" "config error = Some req"
    "\<not> retry req" "\<not> has (url req) ''/auth/refresh''" "truthy (refreshToken s)"
    "net tr (RefreshClient, refreshConfig v s (the (refreshToken s))) = Rejected resp c m"
    "map_option status resp \<noteq> Some 401" "map_option status resp \<noteq> Some 403"
  shows "responseInterceptor v net s tr error =
     (Inl (AxiosError (error\<lparr>config := Some (req\<lparr>retry := True\<rparr>)\<rparr>)), s,
      tr @ [(RefreshClient, refreshConfig v s (the (refreshToken s)))])"
  using assms responseInterceptor_refresh_rejected [of error req s net tr v resp c m] by auto

theorem refresh_network_failure_keeps_session_witness:
  "map_option status (response (failure 401)) = Some 401
   \<and> config (failure 401) = Some internships
   \<and> \<not> retry internships \<and> \<not> has (url internships) ''/auth/refresh''
   \<and> truthy (refreshToken signedIn)
   \<and> unreachable [] (RefreshClient, refreshConfig V1 signedIn (the (refreshToken signedIn)))
       = Rejected None (Some ''ERR_NETWORK'') (Some ''Network Error'')
   \<and> responseInterceptor V1 unreachable signedIn [] (failure 401) =
       (Inl (AxiosError ((failure 401)\<lparr>config := Some (internships\<lparr>retry := True\<rparr>)\<rparr>)), signedIn,
        [(RefreshClient, refreshConfig V1 signedIn (the (refreshToken signedIn)))])"
proof -
  have h: "map_option status (response (failure 401)) = Some 401"
    "config (failure 401) = Some internships"
    "\<not> retry internships" "\<not> has (url internships) ''/auth/refresh''"
    "truthy (refreshToken signedIn)"
    "unreachable [] (RefreshClient, refreshConfig V1 signedIn (the (refreshToken signedIn)))
       = Rejected None (Some ''ERR_NETWORK'') (Some ''Network Error'')"
    by (simp_all add: failure_def internships_def get_config_def signedIn_def truthy_def has_def
          startsWith_def unreachable_def)
  show ?thesis
    using h refresh_network_failure_keeps_session [of "failure 401" internships signedIn unreachable
        "[]" V1 None "Some ''ERR_NETWORK''" "Some ''Network Error''"]
    by simp
qed

section \<open>Sign-out\<close>

text \<open>
  C5. \<open>signOut\<close> always ends with both tokens cleared, in memory and in storage, and never
  rejects: with or without a refresh token, and whatever the backend answers to the
  notification (success, a failure status, or no answer at all).
\<close>

theorem signOut_clears_session:
  "fst (signOut v net s tr token) = Inr ()
   \<and> accessToken (fst (snd (signOut v net s tr token))) = None
   \<and> refreshToken (fst (snd (signOut v net s tr token))) = None
   \<and> storedToken (fst (snd (signOut v net s tr token))) ''access_token'' = None
   \<and> storedToken (fst (snd (signOut v net s tr token))) ''refresh_token'' = None"
  by (simp add: signOut_def Let_def clearTokens_fields storedToken_clearTokens)

section \<open>Invariants of the session\<close>

text \<open>
  Whatever the token setters, the redirect and the reload preserve is preserved by sending a
  request, with or without refresh and re-issue.
\<close>

lemma client_request_retried_state:
  "retry cfg \<Longrightarrow> fst (snd (client_request v net s tr cfg)) = fst (requestInterceptor v s cfg)"
  by (simp add: client_request_retried Let_def split: adapter_result.split)

lemma responseInterceptor_invariant:
  assumes setA: "\<And>s t. P s \<Longrightarrow> P (setAccessToken s t)"
    and setR: "\<And>s t. P s \<Longrightarrow> P (setRefreshToken s t)"
    and clr: "\<And>s. P s \<Longrightarrow> P (clearTokens s)"
    and red: "\<And>s. P s \<Longrightarrow> P (redirectToLogin s)"
    and rel: "\<And>s. P s \<Longrightarrow> P (reloadAccessToken s)"
    and P: "P s"
  shows "P (fst (snd (responseInterceptor v net s tr error)))"
proof (cases "map_option status (response error) = Some 401
              \<and> (\<exists>req. config error = Some req \<and> \<not> retry req \<and> \<not> has (url req) ''/auth/refresh'')
              \<and> truthy (refreshToken s)")
  case False
  then have "responseInterceptor v net s tr error = (Inl (AxiosError error), s, tr)
       \<or> responseInterceptor v net s tr error = (Inl TypeError, s, tr)"
    by (cases "config error") (auto simp add: responseInterceptor.simps Let_def)
  then show ?thesis using P by auto
next
  case True
  then obtain req where req: "config error = Some req" "\<not> retry req" "\<not> has (url req) ''/auth/refresh''"
    and st: "map_option status (response error) = Some 401" and rt: "truthy (refreshToken s)"
    by blast
  show ?thesis
  proof (cases "net tr (RefreshClient, refreshConfig v s (the (refreshToken s)))")
    case (Rejected resp c m)
    show ?thesis
      using responseInterceptor_refresh_rejected [of error req s net tr v resp c m] st req rt Rejected
        P clr red
      by simp
  next
    case (Fulfilled r)
    let ?s2 = "let s1 = setAccessToken s (property access_token (payload r))
        in if truthy (property refresh_token (payload r))
           then setRefreshToken s1 (property refresh_token (payload r)) else s1"
    have "P ?s2" using P setA setR by (simp add: Let_def)
    then have "P (fst (requestInterceptor v ?s2 cfg'))" for cfg'
      using rel by (simp add: requestInterceptor_state)
    then show ?thesis
      using responseInterceptor_refresh_fulfilled [of error req s net tr v r] st req rt Fulfilled
      by (simp add: client_request_retried_state)
  qed
qed

lemma client_request_invariant:
  assumes setA: "\<And>s t. P s \<Longrightarrow> P (setAccessToken s t)"
    and setR: "\<And>s t. P s \<Longrightarrow> P (setRefreshToken s t)"
    and clr: "\<And>s. P s \<Longrightarrow> P (clearTokens s)"
    and red: "\<And>s. P s \<Longrightarrow> P (redirectToLogin s)"
    and rel: "\<And>s. P s \<Longrightarrow> P (reloadAccessToken s)"
    and P: "P s"
  shows "P (fst (snd (client_request v net s tr cfg)))"
proof -
  have P1: "P (fst (requestInterceptor v s cfg))"
    using P rel by (simp add: requestInterceptor_state)
  show ?thesis
  proof (cases "net tr (MainClient, snd (requestInterceptor v s cfg))")
    case (Fulfilled r)
    then show ?thesis using P1 by (simp add: client_request.simps Let_def)
  next
    case (Rejected resp c m)
    then show ?thesis
      using responseInterceptor_invariant [of P, OF setA setR clr red rel P1]
      by (simp add: client_request.simps Let_def)
  qed
qed

lemma storedKeys_reloadAccessToken: "storedKeys (reloadAccessToken s) = storedKeys s"
  by (simp add: storedKeys_def reloadAccessToken_def Let_def split: option.split)

lemma keys_client_request:
  "storedKeys (fst (snd (client_request v net s tr cfg)))
     \<subseteq> storedKeys s \<union> {''access_token'', ''refresh_token''}"
proof (rule client_request_invariant
    [where P = "\<lambda>x. storedKeys x \<subseteq> storedKeys s \<union> {''access_token'', ''refresh_token''}"])
  show "storedKeys s \<subseteq> storedKeys s \<union> {''access_token'', ''refresh_token''}"
    by blast
next
  fix x t
  assume "storedKeys x \<subseteq> storedKeys s \<union> {''access_token'', ''refresh_token''}"
  then show "storedKeys (setAccessToken x t) \<subseteq> storedKeys s \<union> {''access_token'', ''refresh_token''}"
    using storedKeys_setAccessToken [of x t] by blast
next
  fix x t
  assume "storedKeys x \<subseteq> storedKeys s \<union> {''access_token'', ''refresh_token''}"
  then show "storedKeys (setRefreshToken x t) \<subseteq> storedKeys s \<union> {''access_token'', ''refresh_token''}"
    using storedKeys_setRefreshToken [of x t] by blast
next
  fix x
  assume "storedKeys x \<subseteq> storedKeys s \<union> {''access_token'', ''refresh_token''}"
  then show "storedKeys (clearTokens x) \<subseteq> storedKeys s \<union> {''access_token'', ''refresh_token''}"
    by (auto simp add: storedKeys_clearTokens)
next
  fix x
  assume "storedKeys x \<subseteq> storedKeys s \<union> {''access_token'', ''refresh_token''}"
  then show "storedKeys (redirectToLogin x) \<subseteq> storedKeys s \<union> {''access_token'', ''refresh_token''}"
    by (simp add: storedKeys_redirectToLogin)
next
  fix x
  assume "storedKeys x \<subseteq> storedKeys s \<union> {''access_token'', ''refresh_token''}"
  then show "storedKeys (reloadAccessToken x) \<subseteq> storedKeys s \<union> {''access_token'', ''refresh_token''}"
    by (simp add: storedKeys_reloadAccessToken)
qed


section \<open>Expired sessions\<close>

lemma client_request_rejected_no_refresh:
  assumes "\<not> truthy (refreshToken s)"
    "net tr (MainClient, snd (requestInterceptor v s cfg)) = Rejected resp c m"
  shows "client_request v net s tr cfg =
     (Inl (AxiosError \<lparr>config = Some (snd (requestInterceptor v s cfg)), response = resp,
                       code = c, message = m\<rparr>),
      fst (requestInterceptor v s cfg), tr @ [(MainClient, snd (requestInterceptor v s cfg))])"
proof -
  have "\<not> truthy (refreshToken (fst (requestInterceptor v s cfg)))"
    using assms(1) by (simp add: requestInterceptor_state reloadAccessToken_fields)
  then show ?thesis
    using assms(2)
    by (subst client_request.simps) (simp add: Let_def responseInterceptor_guard)
qed

lemma refreshUser_rejected:
  assumes "\<not> truthy (refreshToken s)"
    "net tr (MainClient, snd (requestInterceptor v s (get_config s ''/auth/me''))) = Rejected resp c m"
  shows "user (fst (refreshUser v net ctx s tr)) = None"
  using assms client_request_rejected_no_refresh [of s net tr v "get_config s ''/auth/me''" resp c m]
  by (simp add: refreshUser_def getCurrentUser_def)

lemma newApiClient_cleared:
  assumes "storedToken s ''access_token'' = None" "storedToken s ''refresh_token'' = None"
  shows "accessToken (newApiClient v base (win s)) = None"
    "refreshToken (newApiClient v base (win s)) = None"
    "win (newApiClient v base (win s)) = win s"
  using assms by (simp_all add: newApiClient_def storedToken_def split: option.split)

text \<open>
  C4 (amended). When the refresh call made for a 401 failure is rejected with a 401 or 403
  response, the interceptor clears both tokens in memory and removes both from storage,
  sends the page to \<open>/login\<close> (where there is a window) and rejects with the original error.
  The interceptor does not touch the identity. The next identity request goes out without an
  Authorization header, and the identity becomes null if the backend rejects that request:
  \<open>refreshUser\<close> then sets it to null, and so does the provider mounted by the page load that
  follows the redirect, whose client starts from the emptied storage.
\<close>

theorem refresh_rejected_expires_session:
  assumes "map_option status (response error) = Some 401" "config error = Some req"
    "\<not> retry req" "\<not> has (url req) ''/auth/refresh''" "truthy (refreshToken s)"
    "net tr (RefreshClient, refreshConfig v s (the (refreshToken s))) = Rejected (Some r) c m"
    "status r = 401 \<or> status r = 403"
  shows "\<exists>s'. responseInterceptor v net s tr error =
           (Inl (AxiosError (error\<lparr>config := Some (req\<lparr>retry := True\<rparr>)\<rparr>)), s',
            tr @ [(RefreshClient, refreshConfig v s (the (refreshToken s)))])
     \<and> accessToken s' = None \<and> refreshToken s' = None
     \<and> storedToken s' ''access_token'' = None \<and> storedToken s' ''refresh_token'' = None
     \<and> map_option href (win s') = map_option (\<lambda>w. ''/login'') (win s)
     \<and> Authorization (snd (requestInterceptor v s' (get_config s' ''/auth/me''))) = None
     \<and> (\<forall>net' tr' ctx.
          (\<exists>resp' c' m'. net' tr' (MainClient, snd (requestInterceptor v s' (get_config s' ''/auth/me'')))
              = Rejected resp' c' m')
          \<longrightarrow> user (fst (refreshUser v net' ctx s' tr')) = None)
     \<and> (\<forall>net' tr' base.
          (\<exists>resp' c' m'. net' tr' (MainClient, snd (requestInterceptor v (newApiClient v base (win s'))
                (get_config (newApiClient v base (win s')) ''/auth/me''))) = Rejected resp' c' m')
          \<longrightarrow> user (fst (mount v net' base (win s') tr')) = None)"
proof -
  let ?s' = "redirectToLogin (clearTokens s)"
  have res: "responseInterceptor v net s tr error =
           (Inl (AxiosError (error\<lparr>config := Some (req\<lparr>retry := True\<rparr>)\<rparr>)), ?s',
            tr @ [(RefreshClient, refreshConfig v s (the (refreshToken s)))])"
    using assms responseInterceptor_refresh_rejected [of error req s net tr v "Some r" c m] by auto
  have mem: "accessToken ?s' = None" "refreshToken ?s' = None"
    by (simp_all add: redirectToLogin_fields clearTokens_fields)
  have sto: "storedToken ?s' ''access_token'' = None" "storedToken ?s' ''refresh_token'' = None"
    by (simp_all add: storedToken_redirectToLogin storedToken_clearTokens)
  have loc: "map_option href (win ?s') = map_option (\<lambda>w. ''/login'') (win s)"
    by (simp add: redirectToLogin_def clearTokens_def Let_def split: option.split)
  have st: "fst (requestInterceptor v ?s' (get_config ?s' ''/auth/me'')) = ?s'"
    by (simp add: requestInterceptor_state reloadAccessToken_none sto)
  have auth: "Authorization (snd (requestInterceptor v ?s' (get_config ?s' ''/auth/me''))) = None"
  proof -
    have "Authorization (get_config ?s' ''/auth/me'') = None"
      by (simp add: get_config_def)
    then show ?thesis
      by (simp add: requestInterceptor_Authorization st mem truthy_def)
  qed
  have ident: "user (fst (refreshUser v net' ctx ?s' tr')) = None"
    if "\<exists>resp' c' m'. net' tr' (MainClient, snd (requestInterceptor v ?s' (get_config ?s' ''/auth/me'')))
              = Rejected resp' c' m'" for net' tr' ctx
    using that refreshUser_rejected [of ?s' net' tr' v _ _ _ ctx] mem by (auto simp add: truthy_def)
  have reload: "user (fst (mount v net' base (win ?s') tr')) = None"
    if "\<exists>resp' c' m'. net' tr' (MainClient, snd (requestInterceptor v (newApiClient v base (win ?s'))
                (get_config (newApiClient v base (win ?s')) ''/auth/me''))) = Rejected resp' c' m'"
    for net' tr' base
    using that refreshUser_rejected [of "newApiClient v base (win ?s')" net' tr' v]
      newApiClient_cleared(2) [OF sto, of v base]
    by (auto simp add: truthy_def mount_def)
  show ?thesis
    using res mem sto loc auth ident reload by blast
qed


theorem refresh_rejected_expires_session_witness:
  "map_option status (response (failure 401)) = Some 401
   \<and> config (failure 401) = Some internships
   \<and> \<not> retry internships \<and> \<not> has (url internships) ''/auth/refresh''
   \<and> truthy (refreshToken signedIn)
   \<and> rejecting 401 [] (RefreshClient, refreshConfig V1 signedIn (the (refreshToken signedIn)))
       = Rejected (Some \<lparr>status = 401, payload = None\<rparr>) (Some ''ERR_BAD_REQUEST'') None
   \<and> responseInterceptor V1 (rejecting 401) signedIn [] (failure 401) =
       (Inl (AxiosError ((failure 401)\<lparr>config := Some (internships\<lparr>retry := True\<rparr>)\<rparr>)), expired,
        [(RefreshClient, refreshConfig V1 signedIn (the (refreshToken signedIn)))])
   \<and> accessToken expired = None \<and> refreshToken expired = None
   \<and> storedToken expired ''access_token'' = None \<and> storedToken expired ''refresh_token'' = None
   \<and> map_option href (win expired) = Some ''/login''
   \<and> Authorization (snd (requestInterceptor V1 expired (get_config expired ''/auth/me''))) = None
   \<and> rejecting 401 [] (MainClient, snd (requestInterceptor V1 expired (get_config expired ''/auth/me'')))
       = Rejected (Some \<lparr>status = 401, payload = None\<rparr>) (Some ''ERR_BAD_REQUEST'') None
   \<and> user (fst (refreshUser V1 (rejecting 401) \<lparr>user = Some alice, loading = False\<rparr> expired [])) = None
   \<and> user (fst (mount V1 (rejecting 401) localBase (win expired) [])) = None"
proof -
  have h: "map_option status (response (failure 401)) = Some 401"
    "config (failure 401) = Some internships"
    "\<not> retry internships" "\<not> has (url internships) ''/auth/refresh''"
    "truthy (refreshToken signedIn)"
    "rejecting 401 [] (RefreshClient, refreshConfig V1 signedIn (the (refreshToken signedIn)))
       = Rejected (Some \<lparr>status = 401, payload = None\<rparr>) (Some ''ERR_BAD_REQUEST'') None"
    "status \<lparr>status = 401, payload = None\<rparr> = 401 \<or> status \<lparr>status = 401, payload = None\<rparr> = 403"
    by (simp_all add: failure_def internships_def get_config_def signedIn_def truthy_def has_def
          startsWith_def rejecting_def)
  have ex: "redirectToLogin (clearTokens signedIn) = expired"
    by (simp add: redirectToLogin_def clearTokens_def signedIn_def expired_def browser_def
          removeItem_def Let_def)
  have ev: "fst (snd (responseInterceptor V1 (rejecting 401) signedIn [] (failure 401))) = expired"
    using responseInterceptor_refresh_rejected [of "failure 401" internships signedIn "rejecting 401" "[]" V1
        "Some \<lparr>status = 401, payload = None\<rparr>" "Some ''ERR_BAD_REQUEST''" None] h ex
    by simp
  obtain s' where s': "responseInterceptor V1 (rejecting 401) signedIn [] (failure 401) =
           (Inl (AxiosError ((failure 401)\<lparr>config := Some (internships\<lparr>retry := True\<rparr>)\<rparr>)), s',
            [] @ [(RefreshClient, refreshConfig V1 signedIn (the (refreshToken signedIn)))])"
     "accessToken s' = None" "refreshToken s' = None"
     "storedToken s' ''access_token'' = None" "storedToken s' ''refresh_token'' = None"
     "map_option href (win s') = map_option (\<lambda>w. ''/login'') (win signedIn)"
     "Authorization (snd (requestInterceptor V1 s' (get_config s' ''/auth/me''))) = None"
     "\<forall>net' tr' ctx.
          (\<exists>resp' c' m'. net' tr' (MainClient, snd (requestInterceptor V1 s' (get_config s' ''/auth/me'')))
              = Rejected resp' c' m')
          \<longrightarrow> user (fst (refreshUser V1 net' ctx s' tr')) = None"
     "\<forall>net' tr' base.
          (\<exists>resp' c' m'. net' tr' (MainClient, snd (requestInterceptor V1 (newApiClient V1 base (win s'))
                (get_config (newApiClient V1 base (win s')) ''/auth/me''))) = Rejected resp' c' m')
          \<longrightarrow> user (fst (mount V1 net' base (win s') tr')) = None"
    using refresh_rejected_expires_session [of "failure 401" internships signedIn "rejecting 401" "[]" V1
        "\<lparr>status = 401, payload = None\<rparr>" "Some ''ERR_BAD_REQUEST''" None] h
    by blast
  have eq: "s' = expired" using s'(1) ev by simp
  have rej: "rejecting 401 [] (MainClient, snd (requestInterceptor V1 expired (get_config expired ''/auth/me'')))
       = Rejected (Some \<lparr>status = 401, payload = None\<rparr>) (Some ''ERR_BAD_REQUEST'') None"
    by (simp add: rejecting_def)
  have rej': "rejecting 401 [] (MainClient, snd (requestInterceptor V1 (newApiClient V1 localBase (win expired))
        (get_config (newApiClient V1 localBase (win expired)) ''/auth/me'')))
       = Rejected (Some \<lparr>status = 401, payload = None\<rparr>) (Some ''ERR_BAD_REQUEST'') None"
    by (simp add: rejecting_def)
  have "user (fst (refreshUser V1 (rejecting 401) \<lparr>user = Some alice, loading = False\<rparr> expired [])) = None"
    using s'(8) rej unfolding eq by blast
  moreover have "user (fst (mount V1 (rejecting 401) localBase (win expired) [])) = None"
    using s'(9) rej' unfolding eq by blast
  ultimately show ?thesis
    using h s'(1-7) rej unfolding eq by (simp add: signedIn_def)
qed

text \<open>
  The identity is not null unconditionally after such a failure: nothing in the interceptor
  resets it, and the next identity request decides. With a backend that rejects the refresh
  call with 401 but answers the identity request, the session ends without tokens and yet
  \<open>refreshUser\<close>, and the provider mounted after the redirect, resolve the identity \<open>bob\<close>.
\<close>

theorem identity_after_expiry_counterexample:
  "map_option status (response (failure 401)) = Some 401
   \<and> lenient [] (RefreshClient, refreshCall)
       = Rejected (Some \<lparr>status = 401, payload = None\<rparr>) (Some ''ERR_BAD_REQUEST'') None
   \<and> responseInterceptor V1 lenient signedIn [] (failure 401)
       = (Inl (AxiosError ((failure 401)\<lparr>config := Some (internships\<lparr>retry := True\<rparr>)\<rparr>)), expired,
          [(RefreshClient, refreshCall)])
   \<and> accessToken expired = None \<and> refreshToken expired = None
   \<and> user (fst (refreshUser V1 lenient knowsAlice expired [(RefreshClient, refreshCall)])) = Some bob
   \<and> user (fst (mount V1 lenient localBase (win expired) [(RefreshClient, refreshCall)])) = Some bob"
  by code_simp

section \<open>Authorizing a request\<close>

lemma force_plain:
  "\<not> has (baseURL c) prodDomain \<Longrightarrow> forceBaseURL c = c"
  "forceProduction False c = c"
  "\<not> has (baseURL c) prodDomain \<Longrightarrow> \<not> has (url c) prodDomain \<Longrightarrow> forceDomain c = c"
  "forceFullUrl u False c = c"
  "forceFinalUrl False c = c"
  "debugPost False c = c"
  by (simp_all add: forceBaseURL_def forceProduction_def forceDomain_def forceFullUrl_def
        forceFinalUrl_def debugPost_def)

lemma requestInterceptor2_plain:
  assumes "\<not> isProduction s" "\<not> has (baseURL cfg) prodDomain" "\<not> has (url cfg) prodDomain"
  shows "url (snd (requestInterceptor2 s cfg)) = url cfg"
    and "baseURL (snd (requestInterceptor2 s cfg)) = baseURL cfg"
  using assms by (simp_all add: requestInterceptor2_def Let_def force_plain)

lemma requestInterceptor_urls:
  assumes "v = V1 \<or> (\<not> isProduction s \<and> \<not> has (baseURL cfg) prodDomain \<and> \<not> has (url cfg) prodDomain)"
  shows "url (snd (requestInterceptor v s cfg)) = url cfg"
    and "baseURL (snd (requestInterceptor v s cfg)) = baseURL cfg"
  using assms
  by (cases v; auto simp add: requestInterceptor1_def requestInterceptor2_plain)+

lemma request_config_eqI:
  fixes c c' :: request_config
  assumes "url c' = url c" "baseURL c' = baseURL c" "httpMethod c' = httpMethod c"
    "Authorization c' = Authorization c" "headers c' = headers c" "data c' = data c"
    "retry c' = retry c"
  shows "c' = c"
  using assms by simp

text \<open>
  C7 (amended). The request interceptor attaches the current access token as a Bearer
  Authorization header when one is held, and leaves the Authorization header alone otherwise.
  In the second variant the token in memory is first replaced by a non-empty stored token
  that differs from it. Method, other headers, body and retry mark are never changed. In the
  first variant \<open>url\<close> and \<open>baseURL\<close> are never changed either, so a request passes through
  unmodified when no token is held. In the second variant \<open>url\<close> and \<open>baseURL\<close> may be rewritten
  to HTTPS; they are unchanged when the client is not in production mode and neither of them
  mentions the production API domain.
\<close>

theorem authorize_attaches_token:
  assumes "requestInterceptor v s cfg = (s', cfg')"
  shows "(truthy (accessToken s') \<longrightarrow> Authorization cfg' = Some (''Bearer '' @ the (accessToken s')))
     \<and> (\<not> truthy (accessToken s') \<longrightarrow> Authorization cfg' = Authorization cfg)
     \<and> httpMethod cfg' = httpMethod cfg \<and> headers cfg' = headers cfg
     \<and> data cfg' = data cfg \<and> retry cfg' = retry cfg
     \<and> s' = (if v = V2 then reloadAccessToken s else s)
     \<and> (v = V1 \<or> (\<not> isProduction s \<and> \<not> has (baseURL cfg) prodDomain \<and> \<not> has (url cfg) prodDomain)
          \<longrightarrow> url cfg' = url cfg \<and> baseURL cfg' = baseURL cfg
              \<and> (\<not> truthy (accessToken s') \<longrightarrow> cfg' = cfg))"
proof -
  have s': "s' = fst (requestInterceptor v s cfg)" and cfg': "cfg' = snd (requestInterceptor v s cfg)"
    using assms by simp_all
  have auth: "Authorization cfg' =
     (if truthy (accessToken s') then Some (''Bearer '' @ the (accessToken s')) else Authorization cfg)"
    unfolding s' cfg' by (rule requestInterceptor_Authorization)
  have rest: "httpMethod cfg' = httpMethod cfg" "headers cfg' = headers cfg"
    "data cfg' = data cfg" "retry cfg' = retry cfg"
    unfolding cfg' by (simp_all add: requestInterceptor_fields requestInterceptor_retry)
  have st: "s' = (if v = V2 then reloadAccessToken s else s)"
    unfolding s' by (rule requestInterceptor_state)
  have urls: "url cfg' = url cfg \<and> baseURL cfg' = baseURL cfg \<and> (\<not> truthy (accessToken s') \<longrightarrow> cfg' = cfg)"
    if plain: "v = V1 \<or> (\<not> isProduction s \<and> \<not> has (baseURL cfg) prodDomain \<and> \<not> has (url cfg) prodDomain)"
  proof -
    have u: "url cfg' = url cfg" "baseURL cfg' = baseURL cfg"
      unfolding cfg' using requestInterceptor_urls [OF plain] by simp_all
    have "cfg' = cfg" if "\<not> truthy (accessToken s')"
      using u rest auth that by (intro request_config_eqI) simp_all
    then show ?thesis using u by blast
  qed
  show ?thesis
    using auth rest st urls by simp
qed

theorem authorize_attaches_token_witness:
  "requestInterceptor V1 signedIn (get_config signedIn ''/internships'') = (signedIn, internships)
   \<and> truthy (accessToken signedIn)
   \<and> Authorization internships = Some (''Bearer '' @ the (accessToken signedIn))
   \<and> requestInterceptor V1 expired (get_config expired ''/auth/me'') = (expired, get_config expired ''/auth/me'')
   \<and> \<not> truthy (accessToken expired)
   \<and> Authorization (get_config expired ''/auth/me'') = None"
proof -
  have h1: "requestInterceptor V1 signedIn (get_config signedIn ''/internships'') = (signedIn, internships)"
    by (simp add: requestInterceptor1_def internships_def signedIn_def truthy_def template_def)
  have h2: "requestInterceptor V1 expired (get_config expired ''/auth/me'') = (expired, get_config expired ''/auth/me'')"
    by (simp add: requestInterceptor1_def expired_def truthy_def)
  have t1: "truthy (accessToken signedIn)" and t2: "\<not> truthy (accessToken expired)"
    by (simp_all add: signedIn_def expired_def truthy_def)
  show ?thesis
    using h1 h2 t1 t2 authorize_attaches_token [OF h1] authorize_attaches_token [OF h2]
    by (simp add: get_config_def)
qed

text \<open>
  The second variant does modify a request when no token is held: on a page served over
  HTTPS the default base URL is rewritten to HTTPS.
\<close>

theorem authorize_rewrites_url_counterexample:
  "\<not> truthy (accessToken httpsPage)
   \<and> \<not> truthy (accessToken (fst (requestInterceptor V2 httpsPage (get_config httpsPage ''/internships''))))
   \<and> baseURL (get_config httpsPage ''/internships'') = Some ''http://localhost:8000/api/v2''
   \<and> baseURL (snd (requestInterceptor V2 httpsPage (get_config httpsPage ''/internships'')))
       = Some ''https://localhost:8000/api/v2''"
  by code_simp

section \<open>What durable storage holds\<close>

lemma signIn_state:
  "fst (signIn v net s tr mail pw) = Inr p \<Longrightarrow>
   fst (snd (signIn v net s tr mail pw)) =
     (let s1 = fst (snd (client_request v net s tr (post_config s ''/auth/sign-in'' (SignInRequest mail pw))));
          s2 = setAccessToken s1 (property access_token p)
      in if truthy (property refresh_token p) then setRefreshToken s2 (property refresh_token p) else s2)"
  by (auto simp add: signIn_def Let_def split: prod.splits sum.splits)

lemma signIn_state_rejected:
  "fst (signIn v net s tr mail pw) = Inl e \<Longrightarrow>
   fst (snd (signIn v net s tr mail pw)) =
     fst (snd (client_request v net s tr (post_config s ''/auth/sign-in'' (SignInRequest mail pw))))"
  by (auto simp add: signIn_def Let_def split: prod.splits sum.splits)

lemma keys_signIn:
  "storedKeys (fst (snd (signIn v net s tr mail pw)))
     \<subseteq> storedKeys s \<union> {''access_token'', ''refresh_token''}"
proof (cases "fst (signIn v net s tr mail pw)")
  case (Inl e)
  then show ?thesis
    using keys_client_request [of v net s tr "post_config s ''/auth/sign-in'' (SignInRequest mail pw)"]
    by (simp add: signIn_state_rejected)
next
  case (Inr p)
  show ?thesis
    using keys_client_request [of v net s tr "post_config s ''/auth/sign-in'' (SignInRequest mail pw)"]
      storedKeys_setAccessToken storedKeys_setRefreshToken
    unfolding signIn_state [OF Inr] Let_def
    by (auto split: if_splits) blast+
qed

lemma keys_signOut:
  "storedKeys (fst (snd (signOut v net s tr token)))
     \<subseteq> storedKeys s \<union> {''access_token'', ''refresh_token''}"
  using keys_client_request [of v net s tr "post_config s ''/auth/sign-out'' (SignOutRequest (the token))"]
  by (auto simp add: signOut_def Let_def storedKeys_clearTokens)


lemma window_kept:
  "win (setAccessToken s t) = None \<longleftrightarrow> win s = None"
  "win (setRefreshToken s t) = None \<longleftrightarrow> win s = None"
  "win (clearTokens s) = None \<longleftrightarrow> win s = None"
  "win (redirectToLogin s) = None \<longleftrightarrow> win s = None"
  by (simp_all add: setAccessToken_def setRefreshToken_def clearTokens_def redirectToLogin_def
        Let_def split: option.split)

lemma window_client_request:
  "win s \<noteq> None \<Longrightarrow> win (fst (snd (client_request v net s tr cfg))) \<noteq> None"
  by (rule client_request_invariant [where P = "\<lambda>x. win x \<noteq> None"])
     (simp_all add: window_kept reloadAccessToken_fields del: not_None_eq)

lemma signIn_stores_access_token:
  assumes "win s \<noteq> None" "fst (signIn v net s tr mail pw) = Inr p" "truthy (property access_token p)"
  shows "storedToken (fst (snd (signIn v net s tr mail pw))) ''access_token'' = property access_token p"
proof -
  have "win (fst (snd (client_request v net s tr
          (post_config s ''/auth/sign-in'' (SignInRequest mail pw))))) \<noteq> None"
    using assms(1) by (rule window_client_request)
  then show ?thesis
    using assms(3)
    by (simp add: signIn_state [OF assms(2)] Let_def storedToken_setAccessToken
          storedToken_setRefreshToken window_kept del: not_None_eq)
qed

text \<open>
  What the client does to durable storage. No operation (the token setters, clearing,
  sign-in, sending a request with its refresh and re-issue, sign-out) adds a key other than
  \<open>access_token\<close> and \<open>refresh_token\<close>. The access token is written: where there is a window,
  setting a non-empty access token stores it under \<open>access_token\<close>, and a successful sign-in
  that returns a non-empty access token leaves it there.
\<close>

lemma storage_gains_token_keys_only:
  "storedKeys (setAccessToken s t) \<subseteq> storedKeys s \<union> {''access_token'', ''refresh_token''}
   \<and> storedKeys (setRefreshToken s t) \<subseteq> storedKeys s \<union> {''access_token'', ''refresh_token''}
   \<and> storedKeys (clearTokens s) \<subseteq> storedKeys s \<union> {''access_token'', ''refresh_token''}
   \<and> storedKeys (fst (snd (signIn v net s tr mail pw))) \<subseteq> storedKeys s \<union> {''access_token'', ''refresh_token''}
   \<and> storedKeys (fst (snd (client_request v net s tr cfg))) \<subseteq> storedKeys s \<union> {''access_token'', ''refresh_token''}
   \<and> storedKeys (fst (snd (signOut v net s tr token))) \<subseteq> storedKeys s \<union> {''access_token'', ''refresh_token''}
   \<and> (win s \<noteq> None \<and> truthy t \<longrightarrow> storedToken (setAccessToken s t) ''access_token'' = t)
   \<and> (win s \<noteq> None \<and> fst (signIn v net s tr mail pw) = Inr p \<and> truthy (property access_token p) \<longrightarrow>
        storedToken (fst (snd (signIn v net s tr mail pw))) ''access_token'' = property access_token p)"
proof -
  have a: "storedKeys (setAccessToken s t) \<subseteq> storedKeys s \<union> {''access_token'', ''refresh_token''}"
    using storedKeys_setAccessToken [of s t] by blast
  have b: "storedKeys (setRefreshToken s t) \<subseteq> storedKeys s \<union> {''access_token'', ''refresh_token''}"
    using storedKeys_setRefreshToken [of s t] by blast
  have c: "storedKeys (clearTokens s) \<subseteq> storedKeys s \<union> {''access_token'', ''refresh_token''}"
    by (auto simp add: storedKeys_clearTokens)
  have d: "win s \<noteq> None \<and> truthy t \<longrightarrow> storedToken (setAccessToken s t) ''access_token'' = t"
    by (simp add: storedToken_setAccessToken)
  show ?thesis
    using a b c d keys_signIn [of v net s tr mail pw] keys_client_request [of v net s tr cfg]
      keys_signOut [of v net s tr token] signIn_stores_access_token [of s v net tr mail pw p]
    by blast
qed

lemma storage_on_fresh_client:
  "win (freshClient V1) \<noteq> None \<and> truthy (Some ''t1'')
   \<and> storedToken (setAccessToken (freshClient V1) (Some ''t1'')) ''access_token'' = Some ''t1''
   \<and> fst (signIn V1 scenario (freshClient V1) [] ''a@x.com'' ''secret123'')
       = Inr (Some \<lparr>access_token = Some ''t1'', refresh_token = Some ''r1'', identity = None,
                    detail = DetailOther\<rparr>)
   \<and> storedToken (fst (snd (signIn V1 scenario (freshClient V1) [] ''a@x.com'' ''secret123'')))
       ''access_token'' = Some ''t1''"
proof -
  let ?p = "Some \<lparr>access_token = Some ''t1'', refresh_token = Some ''r1'', identity = None,
                    detail = DetailOther\<rparr>"
  have h: "win (freshClient V1) \<noteq> None" "truthy (Some ''t1'')"
    "fst (signIn V1 scenario (freshClient V1) [] ''a@x.com'' ''secret123'') = Inr ?p"
    "truthy (property access_token ?p)"
    by code_simp+
  show ?thesis
    using h storage_gains_token_keys_only [of "freshClient V1" "Some ''t1''" V1 scenario "[]" "''a@x.com''" "''secret123''" _ _ ?p]
    by (simp add: property_def)
qed

text \<open>
  C1. Durable storage is to hold at most the refresh-token key, and the access token is never
  to be written to it; the README of the repository says the same (access tokens stored in
  memory, refresh tokens in \<open>localStorage\<close>). The code does otherwise: \<open>setAccessToken\<close>
  writes the token to \<open>localStorage\<close>. After the sign-in of the scenario on a fresh client
  with empty storage, storage holds a key besides \<open>refresh_token\<close>, and the access token
  \<open>t1\<close> is stored under \<open>access_token\<close>.
\<close>

theorem access_token_persisted_by_signIn:
  "\<not> storedKeys (fst (snd (signIn V1 scenario (freshClient V1) [] ''a@x.com'' ''secret123'')))
       \<subseteq> {''refresh_token''}
   \<and> storedToken (fst (snd (signIn V1 scenario (freshClient V1) [] ''a@x.com'' ''secret123'')))
       ''access_token'' = Some ''t1''"
  by code_simp


section \<open>The refresh scenario\<close>

lemma client_request_fulfilled:
  "net tr (MainClient, snd (requestInterceptor v s cfg)) = Fulfilled r \<Longrightarrow>
   client_request v net s tr cfg =
     (Inr r, fst (requestInterceptor v s cfg), tr @ [(MainClient, snd (requestInterceptor v s cfg))])"
  by (simp add: client_request.simps Let_def)

lemma reloadAccessToken_mirror:
  "storedToken s ''access_token'' = None \<or> storedToken s ''access_token'' = accessToken s \<Longrightarrow>
   reloadAccessToken s = s"
  by (auto simp add: reloadAccessToken_def storedToken_def Let_def truthy_def split: option.splits)

lemma requestInterceptor_mirror:
  "storedToken s ''access_token'' = None \<or> storedToken s ''access_token'' = accessToken s \<Longrightarrow>
   fst (requestInterceptor v s cfg) = s"
  by (simp add: requestInterceptor_state reloadAccessToken_mirror)

lemma mirror_setAccessToken:
  "truthy t \<Longrightarrow>
   storedToken (setAccessToken s t) ''access_token'' = None
   \<or> storedToken (setAccessToken s t) ''access_token'' = accessToken (setAccessToken s t)"
  by (simp add: storedToken_setAccessToken setAccessToken_fields)

text \<open>
  C6. Sign-in returns access token \<open>t1\<close> and refresh token \<open>r1\<close>; a call then fails with 401;
  the refresh call, whose body carries \<open>r1\<close>, returns access token \<open>t2\<close> and no refresh token;
  the re-issued call succeeds. Then the trace holds exactly the original call (carrying
  \<open>t1\<close>), one refresh call and one re-issue, which carries \<open>Bearer t2\<close> and the retry mark and
  has the method, headers and body of the original. The client returns the response of the
  re-issue, and ends with access token \<open>t2\<close> and refresh token \<open>r1\<close>, in memory and (where
  there is a window) in storage. This holds for both variants, every starting session and
  every backend that answers the four calls as described.
\<close>

theorem refresh_then_reissue_scenario:
  assumes signin:
      "net tr (MainClient, snd (requestInterceptor v s
          (post_config s ''/auth/sign-in'' (SignInRequest mail pw)))) = Fulfilled rS"
      "payload rS = Some pS" "access_token pS = Some ''t1''" "refresh_token pS = Some ''r1''"
      "signIn v net s tr mail pw = (res1, s1, tr1)"
    and call:
      "\<not> retry cfg" "cfg1 = snd (requestInterceptor v s1 cfg)" "\<not> has (url cfg1) ''/auth/refresh''"
      "net tr1 (MainClient, cfg1) = Rejected (Some r401) c m" "status r401 = 401"
    and refresh:
      "net (tr1 @ [(MainClient, cfg1)]) (RefreshClient, refreshConfig v s1 ''r1'') = Fulfilled rR"
      "payload rR = Some pR" "access_token pR = Some ''t2''" "refresh_token pR = None"
    and reissue:
      "cfg2 = snd (requestInterceptor v (setAccessToken s1 (Some ''t2''))
                 (cfg1\<lparr>retry := True, Authorization := Some ''Bearer t2''\<rparr>))"
      "net (tr1 @ [(MainClient, cfg1), (RefreshClient, refreshConfig v s1 ''r1'')]) (MainClient, cfg2)
         = Fulfilled r"
  shows "accessToken s1 = Some ''t1'' \<and> refreshToken s1 = Some ''r1''
     \<and> Authorization cfg1 = Some ''Bearer t1''
     \<and> data (refreshConfig v s1 ''r1'') = RefreshTokenRequest ''r1''
     \<and> client_request v net s1 tr1 cfg =
          (Inr r, setAccessToken s1 (Some ''t2''),
           tr1 @ [(MainClient, cfg1), (RefreshClient, refreshConfig v s1 ''r1''), (MainClient, cfg2)])
     \<and> Authorization cfg2 = Some ''Bearer t2'' \<and> retry cfg2
     \<and> httpMethod cfg2 = httpMethod cfg \<and> headers cfg2 = headers cfg \<and> data cfg2 = data cfg
     \<and> (v = V1 \<longrightarrow> url cfg2 = url cfg \<and> baseURL cfg2 = baseURL cfg)
     \<and> accessToken (setAccessToken s1 (Some ''t2'')) = Some ''t2''
     \<and> refreshToken (setAccessToken s1 (Some ''t2'')) = Some ''r1''
     \<and> storedToken (setAccessToken s1 (Some ''t2'')) ''access_token''
         = (if win s = None then None else Some ''t2'')
     \<and> storedToken (setAccessToken s1 (Some ''t2'')) ''refresh_token''
         = (if win s = None then None else Some ''r1'')"
proof -
  let ?sS = "fst (requestInterceptor v s (post_config s ''/auth/sign-in'' (SignInRequest mail pw)))"
  let ?s2 = "setAccessToken s1 (Some ''t2'')"
  let ?rc = "refreshConfig v s1 ''r1''"
  have t: "truthy (Some ''t1'')" "truthy (Some ''r1'')" "truthy (Some ''t2'')" "\<not> truthy None"
    by (simp_all add: truthy_def)
  have s1: "s1 = setRefreshToken (setAccessToken ?sS (Some ''t1'')) (Some ''r1'')"
    using signin t by (simp add: signIn_def client_request_fulfilled property_def Let_def)
  have winS: "win ?sS = win s"
    by (simp add: requestInterceptor_state reloadAccessToken_fields)
  have tok1: "accessToken s1 = Some ''t1''" "refreshToken s1 = Some ''r1''"
    by (simp_all add: s1 setAccessToken_fields setRefreshToken_fields)
  have sto1: "storedToken s1 ''access_token'' = (if win s = None then None else Some ''t1'')"
    "storedToken s1 ''refresh_token'' = (if win s = None then None else Some ''r1'')"
    using t by (simp_all add: s1 storedToken_setAccessToken storedToken_setRefreshToken window_kept winS)
  have st1: "fst (requestInterceptor v s1 cfg') = s1" for cfg'
    using tok1 sto1 by (intro requestInterceptor_mirror) simp
  have auth1: "Authorization cfg1 = Some ''Bearer t1''"
    unfolding call(2) using tok1 t by (simp add: requestInterceptor_Authorization st1)
  have nr: "\<not> retry cfg1"
    unfolding call(2) using call(1) by (simp add: requestInterceptor_retry)
  have tok2: "accessToken ?s2 = Some ''t2''" "refreshToken ?s2 = Some ''r1''"
    using tok1 by (simp_all add: setAccessToken_fields)
  have st2: "fst (requestInterceptor v ?s2 cfg') = ?s2" for cfg'
    using mirror_setAccessToken [of "Some ''t2''" s1] t by (intro requestInterceptor_mirror) simp
  have cfg2: "Authorization cfg2 = Some ''Bearer t2''" "retry cfg2"
    "httpMethod cfg2 = httpMethod cfg" "headers cfg2 = headers cfg" "data cfg2 = data cfg"
    unfolding reissue(1) call(2) using tok2 t
    by (simp_all add: requestInterceptor_Authorization st2 requestInterceptor_retry
          requestInterceptor_fields)
  have urls: "url cfg2 = url cfg \<and> baseURL cfg2 = baseURL cfg" if "v = V1"
    unfolding reissue(1) call(2) using that by (simp add: requestInterceptor1_def)
  have again: "client_request v net ?s2
      (tr1 @ [(MainClient, cfg1), (RefreshClient, ?rc)])
      (cfg1\<lparr>retry := True, Authorization := Some ''Bearer t2''\<rparr>)
      = (Inr r, ?s2, tr1 @ [(MainClient, cfg1), (RefreshClient, ?rc), (MainClient, cfg2)])"
    using reissue(2) unfolding reissue(1)
    by (simp add: client_request_retried Let_def st2)
  have intercepted: "responseInterceptor v net s1 (tr1 @ [(MainClient, cfg1)])
        \<lparr>config = Some cfg1, response = Some r401, code = c, message = m\<rparr>
      = (Inr r, ?s2, tr1 @ [(MainClient, cfg1), (RefreshClient, ?rc), (MainClient, cfg2)])"
    using responseInterceptor_refresh_fulfilled
      [of "\<lparr>config = Some cfg1, response = Some r401, code = c, message = m\<rparr>" cfg1 s1 net
          "tr1 @ [(MainClient, cfg1)]" v rR]
      call(3,5) nr tok1 t refresh again
    by (simp add: property_def Let_def template_def)
  have whole: "client_request v net s1 tr1 cfg
      = (Inr r, ?s2, tr1 @ [(MainClient, cfg1), (RefreshClient, ?rc), (MainClient, cfg2)])"
    using call(4) intercepted unfolding call(2)
    by (subst client_request.simps) (simp add: Let_def st1)
  have body: "data ?rc = RefreshTokenRequest ''r1''"
    by (cases v) (simp_all add: refreshConfig_def refreshInterceptor_def Let_def forceDomain_fields)
  have sto2: "storedToken ?s2 ''refresh_token'' = (if win s = None then None else Some ''r1'')"
    "storedToken ?s2 ''access_token'' = (if win s = None then None else Some ''t2'')"
    using sto1 t by (simp_all add: storedToken_setAccessToken s1 window_kept winS)
  show ?thesis
    using tok1 auth1 body whole cfg2 urls tok2 sto2 by simp
qed


theorem refresh_then_reissue_scenario_witness:
  "scenario [] (MainClient, snd (requestInterceptor V1 (freshClient V1) signInCall))
      = Fulfilled \<lparr>status = 200, payload = Some tokens1\<rparr>
   \<and> signIn V1 scenario (freshClient V1) [] ''a@x.com'' ''secret123''
      = (Inr (Some tokens1), signedIn, [(MainClient, signInCall)])
   \<and> \<not> retry (get_config signedIn ''/internships'')
   \<and> internships = snd (requestInterceptor V1 signedIn (get_config signedIn ''/internships''))
   \<and> \<not> has (url internships) ''/auth/refresh''
   \<and> scenario [(MainClient, signInCall)] (MainClient, internships)
      = Rejected (Some \<lparr>status = 401, payload = None\<rparr>) (Some ''ERR_BAD_REQUEST'') None
   \<and> scenario [(MainClient, signInCall), (MainClient, internships)] (RefreshClient, refreshCall)
      = Fulfilled \<lparr>status = 200, payload = Some tokens2\<rparr>
   \<and> retried = snd (requestInterceptor V1 (setAccessToken signedIn (Some ''t2''))
                 (internships\<lparr>retry := True, Authorization := Some ''Bearer t2''\<rparr>))
   \<and> scenario [(MainClient, signInCall), (MainClient, internships), (RefreshClient, refreshCall)]
        (MainClient, retried) = Fulfilled \<lparr>status = 200, payload = None\<rparr>
   \<and> client_request V1 scenario signedIn [(MainClient, signInCall)] (get_config signedIn ''/internships'')
      = (Inr \<lparr>status = 200, payload = None\<rparr>, setAccessToken signedIn (Some ''t2''),
         [(MainClient, signInCall), (MainClient, internships), (RefreshClient, refreshCall),
          (MainClient, retried)])
   \<and> Authorization retried = Some ''Bearer t2''
   \<and> accessToken (setAccessToken signedIn (Some ''t2'')) = Some ''t2''
   \<and> refreshToken (setAccessToken signedIn (Some ''t2'')) = Some ''r1''
   \<and> storedToken (setAccessToken signedIn (Some ''t2'')) ''access_token'' = Some ''t2''
   \<and> storedToken (setAccessToken signedIn (Some ''t2'')) ''refresh_token'' = Some ''r1''"
proof -
  have h1: "scenario [] (MainClient, snd (requestInterceptor V1 (freshClient V1)
        (post_config (freshClient V1) ''/auth/sign-in'' (SignInRequest ''a@x.com'' ''secret123''))))
      = Fulfilled \<lparr>status = 200, payload = Some tokens1\<rparr>"
    by code_simp
  have h2: "payload \<lparr>status = 200, payload = Some tokens1\<rparr> = Some tokens1"
    "access_token tokens1 = Some ''t1''" "refresh_token tokens1 = Some ''r1''"
    by (simp_all add: tokens1_def)
  have h3: "signIn V1 scenario (freshClient V1) [] ''a@x.com'' ''secret123''
      = (Inr (Some tokens1), signedIn, [(MainClient, signInCall)])"
    by code_simp
  have h4: "\<not> retry (get_config signedIn ''/internships'')"
    "internships = snd (requestInterceptor V1 signedIn (get_config signedIn ''/internships''))"
    "\<not> has (url internships) ''/auth/refresh''"
    "scenario [(MainClient, signInCall)] (MainClient, internships)
      = Rejected (Some \<lparr>status = 401, payload = None\<rparr>) (Some ''ERR_BAD_REQUEST'') None"
    "status \<lparr>status = 401, payload = None\<rparr> = 401"
    by code_simp+
  have h5: "scenario ([(MainClient, signInCall)] @ [(MainClient, internships)])
        (RefreshClient, refreshConfig V1 signedIn ''r1'')
      = Fulfilled \<lparr>status = 200, payload = Some tokens2\<rparr>"
    "payload \<lparr>status = 200, payload = Some tokens2\<rparr> = Some tokens2"
    "access_token tokens2 = Some ''t2''" "refresh_token tokens2 = None"
    by code_simp+
  have h6: "retried = snd (requestInterceptor V1 (setAccessToken signedIn (Some ''t2''))
                 (internships\<lparr>retry := True, Authorization := Some ''Bearer t2''\<rparr>))"
    "scenario ([(MainClient, signInCall)] @ [(MainClient, internships),
          (RefreshClient, refreshConfig V1 signedIn ''r1'')]) (MainClient, retried)
       = Fulfilled \<lparr>status = 200, payload = None\<rparr>"
    by code_simp+
  have w: "win (freshClient V1) \<noteq> None"
    by (simp add: freshClient_def newApiClient_def)
  show ?thesis
    using h1 h3 h4 h5 h6 w refresh_then_reissue_scenario [OF h1 h2 h3 h4 h5 h6]
    by (simp add: signInCall_def refreshCall_def)
qed

section \<open>Formatting failures\<close>

text \<open>
  C8. In the browser \<open>formatApiError\<close> returns one string for every failure value. A string
  \<open>detail\<close> is returned as it is. An array \<open>detail\<close> is rendered entry by entry and the entries
  are joined with a comma; an entry is the elements of \<open>loc\<close> after the first, joined with
  dots, then a colon and the message. A failure without a response is told apart, in this
  order, as a timeout, a CORS failure, a network failure, a refused connection, or else is
  rendered as its own message (or a generic text); the five fixed texts are pairwise distinct.
\<close>

theorem formatApiError_renders_failures:
  "(w \<noteq> None \<longrightarrow> (\<exists>t. formatApiError w env error = Inr t))
   \<and> (response e = Some r \<and> payload r = Some d \<and> detail d = DetailString t \<longrightarrow>
        formatApiError w env (Some e) = Inr t)
   \<and> (response e = Some r \<and> payload r = Some d \<and> detail d = DetailArray errs \<longrightarrow>
        formatApiError w env (Some e) = Inr (join '', '' (map formatValidationError errs)))
   \<and> (join ''.'' (map loc_text names) \<noteq> [] \<and> m \<noteq> [] \<longrightarrow>
        formatValidationError \<lparr>loc = Some (root # names), msg = Some m\<rparr>
          = join ''.'' (map loc_text names) @ '': '' @ m)
   \<and> (response e = None \<and> isTimeout e \<longrightarrow> formatApiError w env (Some e) = Inr timeoutMessage)
   \<and> (response e = None \<and> \<not> isTimeout e \<and> isCors e \<and> w = Some x \<longrightarrow>
        formatApiError w env (Some e) = Inr (corsMessage (origin x)))
   \<and> (response e = None \<and> \<not> isTimeout e \<and> \<not> isCors e \<and> isNetwork e \<longrightarrow>
        formatApiError w env (Some e) = Inr (networkMessage (or_else env ''http://localhost:8000/api/v2'')))
   \<and> (response e = None \<and> \<not> isTimeout e \<and> \<not> isCors e \<and> \<not> isNetwork e \<and> isRefused e \<longrightarrow>
        formatApiError w env (Some e) = Inr (refusedMessage (or_else env ''http://localhost:8000/api/v2'')))
   \<and> (response e = None \<and> \<not> isTimeout e \<and> \<not> isCors e \<and> \<not> isNetwork e \<and> \<not> isRefused e \<longrightarrow>
        formatApiError w env (Some e)
          = Inr (or_else (message e) (genericMessage (or_else env ''http://localhost:8000/api/v2''))))
   \<and> distinct [timeoutMessage, corsMessage page, networkMessage u, refusedMessage u, genericMessage u]"
proof -
  have total: "w \<noteq> None \<longrightarrow> (\<exists>t. formatApiError w env error = Inr t)"
    by (auto simp add: formatApiError_def Let_def split: option.split detail.split)
  have str: "response e = Some r \<and> payload r = Some d \<and> detail d = DetailString t \<longrightarrow>
        formatApiError w env (Some e) = Inr t"
    by (simp add: formatApiError_def Let_def)
  have arr: "response e = Some r \<and> payload r = Some d \<and> detail d = DetailArray errs \<longrightarrow>
        formatApiError w env (Some e) = Inr (join '', '' (map formatValidationError errs))"
    by (simp add: formatApiError_def Let_def)
  have entry: "join ''.'' (map loc_text names) \<noteq> [] \<and> m \<noteq> [] \<longrightarrow>
        formatValidationError \<lparr>loc = Some (root # names), msg = Some m\<rparr>
          = join ''.'' (map loc_text names) @ '': '' @ m"
    by (simp add: formatValidationError_def or_else_def Let_def)
  have n1: "response e = None \<and> isTimeout e \<longrightarrow> formatApiError w env (Some e) = Inr timeoutMessage"
    by (simp add: formatApiError_def Let_def isTimeout_def timeoutMessage_def)
  have n2: "response e = None \<and> \<not> isTimeout e \<and> isCors e \<and> w = Some x \<longrightarrow>
        formatApiError w env (Some e) = Inr (corsMessage (origin x))"
    by (simp add: formatApiError_def Let_def isTimeout_def isCors_def corsMessage_def)
  have n3: "response e = None \<and> \<not> isTimeout e \<and> \<not> isCors e \<and> isNetwork e \<longrightarrow>
        formatApiError w env (Some e) = Inr (networkMessage (or_else env ''http://localhost:8000/api/v2''))"
    by (simp add: formatApiError_def Let_def isTimeout_def isCors_def isNetwork_def networkMessage_def)
  have n4: "response e = None \<and> \<not> isTimeout e \<and> \<not> isCors e \<and> \<not> isNetwork e \<and> isRefused e \<longrightarrow>
        formatApiError w env (Some e) = Inr (refusedMessage (or_else env ''http://localhost:8000/api/v2''))"
    by (simp add: formatApiError_def Let_def isTimeout_def isCors_def isNetwork_def isRefused_def
          refusedMessage_def)
  have n5: "response e = None \<and> \<not> isTimeout e \<and> \<not> isCors e \<and> \<not> isNetwork e \<and> \<not> isRefused e \<longrightarrow>
        formatApiError w env (Some e)
          = Inr (or_else (message e) (genericMessage (or_else env ''http://localhost:8000/api/v2'')))"
    by (simp add: formatApiError_def Let_def isTimeout_def isCors_def isNetwork_def isRefused_def
          genericMessage_def)
  have dist: "distinct [timeoutMessage, corsMessage page, networkMessage u, refusedMessage u, genericMessage u]"
    by (simp add: timeoutMessage_def corsMessage_def networkMessage_def refusedMessage_def
          genericMessage_def)
  show ?thesis
    using total str arr entry n1 n2 n3 n4 n5 dist by blast
qed


theorem formatApiError_renders_failures_witness:
  "formatApiError (Some browser) None None = Inr (genericMessage ''http://localhost:8000/api/v2'')
   \<and> formatApiError (Some browser) None (Some (withDetail (DetailString ''Invalid credentials'')))
       = Inr ''Invalid credentials''
   \<and> formatApiError (Some browser) None (Some (withDetail (DetailArray [emailRequired, badItem])))
       = Inr ''email: field required, items.0: Invalid value''
   \<and> formatValidationError emailRequired = ''email: field required''
   \<and> formatApiError (Some browser) None
         (Some (noResponse (Some ''ECONNABORTED'') (Some ''timeout of 30000ms exceeded'')))
       = Inr timeoutMessage
   \<and> formatApiError (Some browser) None (Some (noResponse None (Some ''CORS request did not succeed'')))
       = Inr (corsMessage ''http://localhost:3000'')
   \<and> formatApiError (Some browser) None (Some (noResponse (Some ''ERR_NETWORK'') (Some ''Network Error'')))
       = Inr (networkMessage ''http://localhost:8000/api/v2'')
   \<and> formatApiError (Some browser) None (Some (noResponse (Some ''ECONNREFUSED'') (Some ''connect failed'')))
       = Inr (refusedMessage ''http://localhost:8000/api/v2'')
   \<and> formatApiError (Some browser) None (Some (noResponse None (Some ''socket hang up'')))
       = Inr ''socket hang up''"
proof -
  let ?api = "''http://localhost:8000/api/v2''"
  have api: "or_else None ?api = ?api"
    by (simp add: or_else_def)
  have c1: "formatApiError (Some browser) None None = Inr (genericMessage ?api)"
  proof -
    have "Some browser \<noteq> None \<longrightarrow> (\<exists>t. formatApiError (Some browser) None None = Inr t)"
      by (rule formatApiError_renders_failures [where w = "Some browser" and env = None and error = None, THEN conjunct1])
    then obtain t where "formatApiError (Some browser) None None = Inr t"
      by blast
    moreover have "formatApiError (Some browser) None None = Inr (genericMessage ?api)"
      by code_simp
    ultimately show ?thesis by simp
  qed
  have c2: "formatApiError (Some browser) None (Some (withDetail (DetailString ''Invalid credentials'')))
       = Inr ''Invalid credentials''"
    using formatApiError_renders_failures [where w = "Some browser" and env = None
        and e = "withDetail (DetailString ''Invalid credentials'')" and t = "''Invalid credentials''"
        and r = "the (response (withDetail (DetailString ''Invalid credentials'')))"
        and d = "the (payload (the (response (withDetail (DetailString ''Invalid credentials'')))))",
        THEN conjunct2, THEN conjunct1]
    by (simp add: withDetail_def)
  have c3: "formatApiError (Some browser) None (Some (withDetail (DetailArray [emailRequired, badItem])))
       = Inr ''email: field required, items.0: Invalid value''"
  proof -
    have "formatApiError (Some browser) None (Some (withDetail (DetailArray [emailRequired, badItem])))
       = Inr (join '', '' (map formatValidationError [emailRequired, badItem]))"
      using formatApiError_renders_failures [where w = "Some browser" and env = None
          and e = "withDetail (DetailArray [emailRequired, badItem])" and errs = "[emailRequired, badItem]"
          and r = "the (response (withDetail (DetailArray [emailRequired, badItem])))"
          and d = "the (payload (the (response (withDetail (DetailArray [emailRequired, badItem])))))",
          THEN conjunct2, THEN conjunct2, THEN conjunct1]
      by (simp add: withDetail_def)
    moreover have "join '', '' (map formatValidationError [emailRequired, badItem])
       = ''email: field required, items.0: Invalid value''"
      by code_simp
    ultimately show ?thesis by simp
  qed
  have c4: "formatValidationError emailRequired = ''email: field required''"
    using formatApiError_renders_failures [where names = "[LocStr ''email'']" and m = "''field required''" and root = "LocStr ''body''",
        THEN conjunct2, THEN conjunct2, THEN conjunct2, THEN conjunct1]
    by (simp add: emailRequired_def loc_text_def)
  have t5: "response (noResponse (Some ''ECONNABORTED'') (Some ''timeout of 30000ms exceeded'')) = None"
    "isTimeout (noResponse (Some ''ECONNABORTED'') (Some ''timeout of 30000ms exceeded''))"
    by (simp_all add: isTimeout_def noResponse_def)
  have c5: "formatApiError (Some browser) None
         (Some (noResponse (Some ''ECONNABORTED'') (Some ''timeout of 30000ms exceeded''))) = Inr timeoutMessage"
    using t5 formatApiError_renders_failures [where w = "Some browser" and env = None
        and e = "noResponse (Some ''ECONNABORTED'') (Some ''timeout of 30000ms exceeded'')",
        THEN conjunct2, THEN conjunct2, THEN conjunct2, THEN conjunct2, THEN conjunct1]
    by blast
  have t6: "response (noResponse None (Some ''CORS request did not succeed'')) = None"
    "\<not> isTimeout (noResponse None (Some ''CORS request did not succeed''))"
    "isCors (noResponse None (Some ''CORS request did not succeed''))"
    "origin browser = ''http://localhost:3000''"
    by code_simp+
  have c6: "formatApiError (Some browser) None (Some (noResponse None (Some ''CORS request did not succeed'')))
       = Inr (corsMessage ''http://localhost:3000'')"
    using t6 formatApiError_renders_failures [where w = "Some browser" and env = None and x = browser
        and e = "noResponse None (Some ''CORS request did not succeed'')",
        THEN conjunct2, THEN conjunct2, THEN conjunct2, THEN conjunct2, THEN conjunct2, THEN conjunct1]
    by simp
  have t7: "response (noResponse (Some ''ERR_NETWORK'') (Some ''Network Error'')) = None"
    "\<not> isTimeout (noResponse (Some ''ERR_NETWORK'') (Some ''Network Error''))"
    "\<not> isCors (noResponse (Some ''ERR_NETWORK'') (Some ''Network Error''))"
    "isNetwork (noResponse (Some ''ERR_NETWORK'') (Some ''Network Error''))"
    by code_simp+
  have c7: "formatApiError (Some browser) None (Some (noResponse (Some ''ERR_NETWORK'') (Some ''Network Error'')))
       = Inr (networkMessage ?api)"
    using t7 api formatApiError_renders_failures [where w = "Some browser" and env = None
        and e = "noResponse (Some ''ERR_NETWORK'') (Some ''Network Error'')",
        THEN conjunct2, THEN conjunct2, THEN conjunct2, THEN conjunct2, THEN conjunct2,
        THEN conjunct2, THEN conjunct1]
    by simp
  have t8: "response (noResponse (Some ''ECONNREFUSED'') (Some ''connect failed'')) = None"
    "\<not> isTimeout (noResponse (Some ''ECONNREFUSED'') (Some ''connect failed''))"
    "\<not> isCors (noResponse (Some ''ECONNREFUSED'') (Some ''connect failed''))"
    "\<not> isNetwork (noResponse (Some ''ECONNREFUSED'') (Some ''connect failed''))"
    "isRefused (noResponse (Some ''ECONNREFUSED'') (Some ''connect failed''))"
    by code_simp+
  have c8: "formatApiError (Some browser) None (Some (noResponse (Some ''ECONNREFUSED'') (Some ''connect failed'')))
       = Inr (refusedMessage ?api)"
    using t8 api formatApiError_renders_failures [where w = "Some browser" and env = None
        and e = "noResponse (Some ''ECONNREFUSED'') (Some ''connect failed'')",
        THEN conjunct2, THEN conjunct2, THEN conjunct2, THEN conjunct2, THEN conjunct2,
        THEN conjunct2, THEN conjunct2, THEN conjunct1]
    by simp
  have t9: "response (noResponse None (Some ''socket hang up'')) = None"
    "\<not> isTimeout (noResponse None (Some ''socket hang up''))"
    "\<not> isCors (noResponse None (Some ''socket hang up''))"
    "\<not> isNetwork (noResponse None (Some ''socket hang up''))"
    "\<not> isRefused (noResponse None (Some ''socket hang up''))"
    "or_else (message (noResponse None (Some ''socket hang up''))) (genericMessage ?api) = ''socket hang up''"
    by code_simp+
  have c9: "formatApiError (Some browser) None (Some (noResponse None (Some ''socket hang up'')))
       = Inr ''socket hang up''"
    using t9 api formatApiError_renders_failures [where w = "Some browser" and env = None
        and e = "noResponse None (Some ''socket hang up'')",
        THEN conjunct2, THEN conjunct2, THEN conjunct2, THEN conjunct2, THEN conjunct2,
        THEN conjunct2, THEN conjunct2, THEN conjunct2, THEN conjunct1]
    by simp
  show ?thesis
    using c1 c2 c3 c4 c5 c6 c7 c8 c9 by blast
qed

section \<open>Resolving the identity\<close>









end
